theory Spec2Isabelle
  imports Complex_Main "HOL-Library.Word" "HOL-Library.Sublist"
begin

unbundle bit_operations_syntax

section \<open>Bytes and strings\<close>

text \<open>
  A Go \<^verbatim>\<open>string\<close> is an immutable sequence of bytes and is modelled as a HOL
  \<^typ>\<open>string\<close>; a \<^verbatim>\<open>[]byte\<close> is a list of 8-bit words. The conversions
  \<^verbatim>\<open>[]byte(s)\<close> and \<^verbatim>\<open>string(b)\<close> copy the bytes.
\<close>

type_synonym byte = "8 word"

definition bytes_of :: "string \<Rightarrow> byte list" where
  "bytes_of s = map (\<lambda>c. of_nat (of_char c)) s"

definition string_of :: "byte list \<Rightarrow> string" where
  "string_of bs = map (\<lambda>b. char_of (unat b)) bs"

section \<open>Remote repository protocol (package gitprovider)\<close>

subsection \<open>Requests and results (provider.go)\<close>

text \<open>
  Several structs of this package share field names with each other and with structs of
  package webhook; their fields are written with the record's name throughout
  (\<open>FileChange.Path\<close>, \<open>PRRequest.Title\<close>).
\<close>

record FileChange =
  Path :: string
  Content :: string
  Mode :: string

record PRRequest =
  Title :: string
  Body :: string
  Head :: string
  Base :: string
  Draft :: bool
  Labels :: "string list"
  Assignees :: "string list"

record PRResponse =
  Number :: int
  URL :: string
  HTMLURL :: string

text \<open>
  A Go function with results \<^verbatim>\<open>(T, error)\<close> returns a value (\<open>Ok\<close>) or an error with
  its message (\<open>Err\<close>); dereferencing a \<^verbatim>\<open>nil\<close> pointer panics. A function whose only
  result is \<^verbatim>\<open>error\<close> returns \<open>None\<close> for \<^verbatim>\<open>nil\<close>.
\<close>

datatype 'a result = Ok 'a | Err string | Panic

subsection \<open>Values exchanged with the client library\<close>

text \<open>
  The structs of go-github that the provider reads or builds. A pointer field is an
  option. The getters (\<^verbatim>\<open>GetSHA\<close>, \<^verbatim>\<open>GetNumber\<close>, \<^verbatim>\<open>GetURL\<close>, ...) return the
  zero value through a \<^verbatim>\<open>nil\<close> pointer. A commit names its parents by their SHAs.
\<close>

record GitObject =
  SHA :: "string option"

record Reference =
  Ref :: "string option"
  Object :: "GitObject option"

record Tree =
  SHA :: "string option"

record Commit =
  SHA :: "string option"
  Tree :: "Tree option"
  Message :: "string option"
  Parents :: "string list"

record TreeEntry =
  Path :: string
  Mode :: string
  Type :: string
  Content :: string

record NewPullRequest =
  Title :: string
  Body :: string
  Head :: string
  Base :: string
  Draft :: bool

record PullRequest =
  Number :: "int option"
  URL :: "string option"
  HTMLURL :: "string option"

definition GetString :: "string option \<Rightarrow> string" where
  "GetString p = (case p of None \<Rightarrow> '''' | Some s \<Rightarrow> s)"

definition GetInt :: "int option \<Rightarrow> int" where
  "GetInt p = (case p of None \<Rightarrow> 0 | Some n \<Rightarrow> n)"

definition GetObject_GetSHA :: "Reference \<Rightarrow> string" where
  "GetObject_GetSHA ref =
     (case Reference.Object ref of None \<Rightarrow> '''' | Some ob \<Rightarrow> GetString (GitObject.SHA ob))"

definition GetTree_GetSHA :: "Commit \<Rightarrow> string" where
  "GetTree_GetSHA c =
     (case Commit.Tree c of None \<Rightarrow> '''' | Some t \<Rightarrow> GetString (Tree.SHA t))"

subsection \<open>The remote repository\<close>

text \<open>
  The hosting service is outside the program. It is modelled as the store of the one
  repository the provider is bound to: branch references, commits, trees (a tree maps a
  path to the mode and content of its blob) and pull requests. The service answers each
  call as its script says: call number \<open>n\<close> (counted over all calls made so far) either
  fails with a message, which stands for any network, authorisation or validation
  failure, or is carried out; a call that creates an object is given the object's
  identifier by the script. A call that fails changes nothing but the record of calls.
\<close>

record commit_object =
  tree_of :: string
  parents_of :: "string list"
  message_of :: string

type_synonym tree_object = "string \<rightharpoonup> string \<times> string"

record pull_object =
  pr_number :: int
  pr_request :: NewPullRequest
  pr_labels :: "string list"
  pr_assignees :: "string list"

datatype reply = Fail string | Done string

datatype api_call =
    GetRef string
  | GetCommit string
  | CreateTree string "TreeEntry list"
  | CreateCommit Commit
  | UpdateRef Reference bool
  | CreateRef Reference
  | CreatePull NewPullRequest
  | AddLabelsToIssue int "string list"
  | AddAssignees int "string list"

record remote =
  refs :: "string \<rightharpoonup> string"
  commits :: "string \<rightharpoonup> commit_object"
  trees :: "string \<rightharpoonup> tree_object"
  pulls :: "pull_object list"
  replies :: "nat \<Rightarrow> reply"
  calls :: "api_call list"

definition next_reply :: "remote \<Rightarrow> reply" where
  "next_reply r = replies r (length (calls r))"

definition called :: "api_call \<Rightarrow> remote \<Rightarrow> remote" where
  "called c r = r\<lparr>calls := calls r @ [c]\<rparr>"

text \<open>
  \<^verbatim>\<open>strings.TrimPrefix\<close>, with which the client library forms the path of a reference:
  \<^verbatim>\<open>git/ref/heads/x\<close> to read \<^verbatim>\<open>refs/heads/x\<close>, \<^verbatim>\<open>git/refs/heads/x\<close> to update it.
\<close>

definition TrimPrefix :: "string \<Rightarrow> string \<Rightarrow> string" where
  "TrimPrefix s p = (if prefix p s then drop (length p) s else s)"

text \<open>The text of an error response, as the client library prints it.\<close>

definition api_error :: "string \<Rightarrow> string \<Rightarrow> string \<Rightarrow> string \<Rightarrow> string \<Rightarrow> string" where
  "api_error method owner repo path reason =
     method @ '' https://api.github.com/repos/'' @ owner @ ''/'' @ repo @ ''/'' @ path
       @ '': '' @ reason @ '' []''"

definition Git_GetRef ::
  "remote \<Rightarrow> string \<Rightarrow> string \<Rightarrow> string \<Rightarrow> (string + Reference) \<times> remote" where
  "Git_GetRef r owner repo ref =
     (let r' = called (GetRef ref) r
      in case next_reply r of
           Fail err \<Rightarrow> (Inl err, r')
         | Done _ \<Rightarrow>
             (case refs r ref of
                None \<Rightarrow> (Inl (api_error ''GET'' owner repo (''git/ref/'' @ TrimPrefix ref ''refs/'')
                             ''404 Not Found''), r')
              | Some sha \<Rightarrow>
                  (Inr \<lparr>Ref = Some ref, Object = Some \<lparr>GitObject.SHA = Some sha\<rparr>\<rparr>, r')))"

definition Git_GetCommit ::
  "remote \<Rightarrow> string \<Rightarrow> string \<Rightarrow> string \<Rightarrow> (string + Commit) \<times> remote" where
  "Git_GetCommit r owner repo sha =
     (let r' = called (GetCommit sha) r
      in case next_reply r of
           Fail err \<Rightarrow> (Inl err, r')
         | Done _ \<Rightarrow>
             (case commits r sha of
                None \<Rightarrow>
                  (Inl (api_error ''GET'' owner repo (''git/commits/'' @ sha) ''404 Not Found''), r')
              | Some c \<Rightarrow>
                  (Inr \<lparr>Commit.SHA = Some sha,
                        Tree = Some \<lparr>Tree.SHA = Some (tree_of c)\<rparr>,
                        Message = Some (message_of c),
                        Parents = parents_of c\<rparr>, r')))"

text \<open>
  Creating a tree from a base tree and entries: the new tree is the base tree with, for
  each entry in turn, the entry's path bound to the entry's mode and content. An empty
  base SHA means no base tree.
\<close>

definition put_entry :: "TreeEntry \<Rightarrow> tree_object \<Rightarrow> tree_object" where
  "put_entry e t = t(TreeEntry.Path e \<mapsto> (TreeEntry.Mode e, TreeEntry.Content e))"

definition base_tree :: "remote \<Rightarrow> string \<Rightarrow> tree_object option" where
  "base_tree r sha = (if sha = '''' then Some Map.empty else trees r sha)"

definition Git_CreateTree ::
  "remote \<Rightarrow> string \<Rightarrow> string \<Rightarrow> string \<Rightarrow> TreeEntry list \<Rightarrow> (string + Tree) \<times> remote" where
  "Git_CreateTree r owner repo baseTree entries =
     (let r' = called (CreateTree baseTree entries) r
      in case next_reply r of
           Fail err \<Rightarrow> (Inl err, r')
         | Done new_sha \<Rightarrow>
             (case base_tree r baseTree of
                None \<Rightarrow>
                  (Inl (api_error ''POST'' owner repo ''git/trees''
                          ''422 base_tree is not a valid tree oid''), r')
              | Some base \<Rightarrow>
                  (Inr \<lparr>Tree.SHA = Some new_sha\<rparr>,
                   r'\<lparr>trees := (trees r)(new_sha \<mapsto> fold put_entry entries base)\<rparr>)))"

definition Git_CreateCommit ::
  "remote \<Rightarrow> string \<Rightarrow> string \<Rightarrow> Commit \<Rightarrow> (string + Commit) \<times> remote" where
  "Git_CreateCommit r owner repo commit =
     (let r' = called (CreateCommit commit) r
      in case next_reply r of
           Fail err \<Rightarrow> (Inl err, r')
         | Done new_sha \<Rightarrow>
             if trees r (GetTree_GetSHA commit) = None then
               (Inl (api_error ''POST'' owner repo ''git/commits'' ''422 Tree SHA does not exist''), r')
             else
               (Inr (commit\<lparr>Commit.SHA := Some new_sha\<rparr>),
                r'\<lparr>commits := (commits r)(new_sha \<mapsto>
                      \<lparr>tree_of = GetTree_GetSHA commit,
                       parents_of = Commit.Parents commit,
                       message_of = GetString (Commit.Message commit)\<rparr>)\<rparr>))"

definition Git_UpdateRef ::
  "remote \<Rightarrow> string \<Rightarrow> string \<Rightarrow> Reference \<Rightarrow> bool \<Rightarrow> (string + Reference) \<times> remote" where
  "Git_UpdateRef r owner repo ref force =
     (let r' = called (UpdateRef ref force) r;
          name = GetString (Reference.Ref ref);
          sha = GetObject_GetSHA ref
      in case next_reply r of
           Fail err \<Rightarrow> (Inl err, r')
         | Done _ \<Rightarrow>
             if refs r name = None then
               (Inl (api_error ''PATCH'' owner repo (''git/refs/'' @ TrimPrefix name ''refs/'')
                       ''422 Reference does not exist''), r')
             else if commits r sha = None then
               (Inl (api_error ''PATCH'' owner repo (''git/refs/'' @ TrimPrefix name ''refs/'')
                       ''422 Object does not exist''), r')
             else (Inr ref, r'\<lparr>refs := (refs r)(name \<mapsto> sha)\<rparr>))"

definition Git_CreateRef ::
  "remote \<Rightarrow> string \<Rightarrow> string \<Rightarrow> Reference \<Rightarrow> (string + Reference) \<times> remote" where
  "Git_CreateRef r owner repo ref =
     (let r' = called (CreateRef ref) r;
          name = GetString (Reference.Ref ref);
          sha = GetObject_GetSHA ref
      in case next_reply r of
           Fail err \<Rightarrow> (Inl err, r')
         | Done _ \<Rightarrow>
             if refs r name \<noteq> None then
               (Inl (api_error ''POST'' owner repo ''git/refs'' ''422 Reference already exists''), r')
             else if commits r sha = None then
               (Inl (api_error ''POST'' owner repo ''git/refs'' ''422 Object does not exist''), r')
             else (Inr ref, r'\<lparr>refs := (refs r)(name \<mapsto> sha)\<rparr>))"

definition PullRequests_Create ::
  "remote \<Rightarrow> string \<Rightarrow> string \<Rightarrow> NewPullRequest \<Rightarrow> (string + PullRequest) \<times> remote" where
  "PullRequests_Create r owner repo pr =
     (let r' = called (CreatePull pr) r
      in case next_reply r of
           Fail err \<Rightarrow> (Inl err, r')
         | Done ident \<Rightarrow>
             let n = int (length (pulls r)) + 1
             in (Inr \<lparr>PullRequest.Number = Some n,
                      URL = Some (''https://api.github.com/repos/'' @ owner @ ''/'' @ repo
                                    @ ''/pulls/'' @ ident),
                      HTMLURL = Some (''https://github.com/'' @ owner @ ''/'' @ repo
                                    @ ''/pull/'' @ ident)\<rparr>,
                 r'\<lparr>pulls := pulls r @
                      [\<lparr>pr_number = n, pr_request = pr, pr_labels = [], pr_assignees = []\<rparr>]\<rparr>))"

definition Issues_AddLabelsToIssue ::
  "remote \<Rightarrow> string \<Rightarrow> string \<Rightarrow> int \<Rightarrow> string list \<Rightarrow> (string + unit) \<times> remote" where
  "Issues_AddLabelsToIssue r owner repo number labels =
     (let r' = called (AddLabelsToIssue number labels) r
      in case next_reply r of
           Fail err \<Rightarrow> (Inl err, r')
         | Done _ \<Rightarrow>
             (Inr (),
              r'\<lparr>pulls := map (\<lambda>p. if pr_number p = number
                                     then p\<lparr>pr_labels := pr_labels p @ labels\<rparr> else p)
                               (pulls r)\<rparr>))"

definition Issues_AddAssignees ::
  "remote \<Rightarrow> string \<Rightarrow> string \<Rightarrow> int \<Rightarrow> string list \<Rightarrow> (string + unit) \<times> remote" where
  "Issues_AddAssignees r owner repo number assignees =
     (let r' = called (AddAssignees number assignees) r
      in case next_reply r of
           Fail err \<Rightarrow> (Inl err, r')
         | Done _ \<Rightarrow>
             (Inr (),
              r'\<lparr>pulls := map (\<lambda>p. if pr_number p = number
                                     then p\<lparr>pr_assignees := pr_assignees p @ assignees\<rparr> else p)
                               (pulls r)\<rparr>))"

subsection \<open>The provider (github.go)\<close>

text \<open>
  \<^verbatim>\<open>GitHubProvider\<close> holds the client and the owner and name of the repository. The
  client's state is the remote, passed to each operation and returned by it.
\<close>

record GitHubProvider =
  owner :: string
  repo :: string

text \<open>\<^verbatim>\<open>strings.Contains(s, substr)\<close> is \<open>sublist substr s\<close>.\<close>

definition CreateBranch ::
  "GitHubProvider \<Rightarrow> remote \<Rightarrow> string \<Rightarrow> string \<Rightarrow> string option \<times> remote" where
  "CreateBranch g r name baseSHA =
     (let ref = \<lparr>Ref = Some (''refs/heads/'' @ name),
                 Object = Some \<lparr>GitObject.SHA = Some baseSHA\<rparr>\<rparr>
      in case Git_CreateRef r (owner g) (repo g) ref of
           (Inl err, r') \<Rightarrow>
             if sublist ''Reference already exists'' err then (None, r')
             else (Some (''failed to create branch '' @ name @ '': '' @ err), r')
         | (Inr created, r') \<Rightarrow> (None, r'))"

text \<open>The loop of \<^verbatim>\<open>CommitFiles\<close> that turns the file changes into tree entries.\<close>

fun tree_entries_loop :: "FileChange list \<Rightarrow> TreeEntry list \<Rightarrow> TreeEntry list" where
  "tree_entries_loop [] treeEntries = treeEntries"
| "tree_entries_loop (file # files) treeEntries =
     (let mode = FileChange.Mode file;
          mode = (if mode = '''' then ''100644'' else mode)
      in tree_entries_loop files
           (treeEntries @ [\<lparr>TreeEntry.Path = FileChange.Path file,
                             Mode = mode,
                             Type = ''blob'',
                             Content = FileChange.Content file\<rparr>]))"

definition CommitFiles ::
  "GitHubProvider \<Rightarrow> remote \<Rightarrow> string \<Rightarrow> FileChange list \<Rightarrow> string \<Rightarrow> string result \<times> remote" where
  "CommitFiles g r branch files message =
     (case Git_GetRef r (owner g) (repo g) (''refs/heads/'' @ branch) of
        (Inl err, r1) \<Rightarrow> (Err (''failed to get branch ref: '' @ err), r1)
      | (Inr ref, r1) \<Rightarrow>
          let parentSHA = GetObject_GetSHA ref
          in case Git_GetCommit r1 (owner g) (repo g) parentSHA of
               (Inl err, r2) \<Rightarrow> (Err (''failed to get parent commit: '' @ err), r2)
             | (Inr parentCommit, r2) \<Rightarrow>
                 let baseTreeSHA = GetTree_GetSHA parentCommit;
                     treeEntries = tree_entries_loop files []
                 in case Git_CreateTree r2 (owner g) (repo g) baseTreeSHA treeEntries of
                      (Inl err, r3) \<Rightarrow> (Err (''failed to create tree: '' @ err), r3)
                    | (Inr newTree, r3) \<Rightarrow>
                        let commit = \<lparr>Commit.SHA = None,
                                      Tree = Some newTree,
                                      Message = Some message,
                                      Parents = [parentSHA]\<rparr>
                        in case Git_CreateCommit r3 (owner g) (repo g) commit of
                             (Inl err, r4) \<Rightarrow> (Err (''failed to create commit: '' @ err), r4)
                           | (Inr newCommit, r4) \<Rightarrow>
                               (case Reference.Object ref of
                                  None \<Rightarrow> (Panic, r4)
                                | Some ob \<Rightarrow>
                                    let ref = ref\<lparr>Object :=
                                                Some (ob\<lparr>GitObject.SHA := Commit.SHA newCommit\<rparr>)\<rparr>
                                    in case Git_UpdateRef r4 (owner g) (repo g) ref False of
                                         (Inl err, r5) \<Rightarrow>
                                           (Err (''failed to update branch ref: '' @ err), r5)
                                       | (Inr updated, r5) \<Rightarrow>
                                           (Ok (GetString (Commit.SHA newCommit)), r5)))"

text \<open>
  \<^verbatim>\<open>CreatePullRequest\<close>. The two warnings printed when labels or assignees cannot be
  added go to standard output and leave no trace in the model.
\<close>

definition CreatePullRequest ::
  "GitHubProvider \<Rightarrow> remote \<Rightarrow> PRRequest \<Rightarrow> PRResponse result \<times> remote" where
  "CreatePullRequest g r req =
     (let pr = \<lparr>NewPullRequest.Title = PRRequest.Title req,
                Body = PRRequest.Body req,
                Head = PRRequest.Head req,
                Base = PRRequest.Base req,
                Draft = PRRequest.Draft req\<rparr>
      in case PullRequests_Create r (owner g) (repo g) pr of
           (Inl err, r1) \<Rightarrow> (Err (''failed to create pull request: '' @ err), r1)
         | (Inr created, r1) \<Rightarrow>
             let r2 = (if length (PRRequest.Labels req) > 0 then
                         snd (Issues_AddLabelsToIssue r1 (owner g) (repo g)
                                (GetInt (PullRequest.Number created)) (PRRequest.Labels req))
                       else r1);
                 r3 = (if length (PRRequest.Assignees req) > 0 then
                         snd (Issues_AddAssignees r2 (owner g) (repo g)
                                (GetInt (PullRequest.Number created)) (PRRequest.Assignees req))
                       else r2)
             in (Ok \<lparr>PRResponse.Number = GetInt (PullRequest.Number created),
                     PRResponse.URL = GetString (PullRequest.URL created),
                     PRResponse.HTMLURL = GetString (PullRequest.HTMLURL created)\<rparr>, r3))"

subsection \<open>The steps of the commit protocol\<close>

datatype step = ResolveRef | ResolveCommit | BuildTree | MakeCommit | AdvanceRef

fun step_of :: "api_call \<Rightarrow> step option" where
  "step_of (GetRef _) = Some ResolveRef"
| "step_of (GetCommit _) = Some ResolveCommit"
| "step_of (CreateTree _ _) = Some BuildTree"
| "step_of (CreateCommit _) = Some MakeCommit"
| "step_of (UpdateRef _ _) = Some AdvanceRef"
| "step_of _ = None"

definition protocol :: "step option list" where
  "protocol = [Some ResolveRef, Some ResolveCommit, Some BuildTree, Some MakeCommit, Some AdvanceRef]"

text \<open>The calls made by an operation that started in \<open>r\<close> and ended in \<open>r'\<close>.\<close>

definition calls_since :: "remote \<Rightarrow> remote \<Rightarrow> api_call list" where
  "calls_since r r' = drop (length (calls r)) (calls r')"

text \<open>The mode a file change is committed with.\<close>

definition committed_mode :: "FileChange \<Rightarrow> string" where
  "committed_mode f = (if FileChange.Mode f = '''' then ''100644'' else FileChange.Mode f)"

text \<open>The tree entry the loop of \<^verbatim>\<open>CommitFiles\<close> builds for one file change.\<close>

definition tree_entry_of :: "FileChange \<Rightarrow> TreeEntry" where
  "tree_entry_of f =
     \<lparr>TreeEntry.Path = FileChange.Path f, Mode = committed_mode f, Type = ''blob'',
      Content = FileChange.Content f\<rparr>"

subsection \<open>A concrete remote\<close>

text \<open>A script given as a list of replies; every later call fails.\<close>

definition script_of :: "reply list \<Rightarrow> nat \<Rightarrow> reply" where
  "script_of rs n = (if n < length rs then rs ! n else Fail ''connection refused'')"

text \<open>
  A repository with one branch \<^verbatim>\<open>fix\<close> at commit \<^verbatim>\<open>c0\<close>, whose tree \<^verbatim>\<open>t0\<close> holds
  two files.
\<close>

definition sample_tree :: tree_object where
  "sample_tree =
     [''README.md'' \<mapsto> (''100644'', ''hello''), ''main.go'' \<mapsto> (''100644'', ''old'')]"

definition sample_remote :: "reply list \<Rightarrow> remote" where
  "sample_remote rs =
     \<lparr>refs = [''refs/heads/fix'' \<mapsto> ''c0''],
      commits = [''c0'' \<mapsto> \<lparr>tree_of = ''t0'', parents_of = [], message_of = ''init''\<rparr>],
      trees = [''t0'' \<mapsto> sample_tree],
      pulls = [],
      replies = script_of rs,
      calls = []\<rparr>"

definition sample_provider :: GitHubProvider where
  "sample_provider = \<lparr>owner = ''acme'', repo = ''shop''\<rparr>"

definition sample_change :: FileChange where
  "sample_change = \<lparr>FileChange.Path = ''main.go'', Content = ''new'', Mode = ''''\<rparr>"

definition sample_request :: PRRequest where
  "sample_request =
     \<lparr>PRRequest.Title = ''Fix crash'', Body = ''Fixes the crash'', Head = ''fix'',
      Base = ''main'', Draft = False, Labels = [''sentry''], Assignees = [''octocat'']\<rparr>"

section \<open>Signature gate (package webhook, signature.go)\<close>

subsection \<open>Library functions used by \<^verbatim>\<open>Verify\<close>\<close>

text \<open>
  \<^verbatim>\<open>encoding/hex\<close>: \<^verbatim>\<open>EncodeToString\<close> writes, for every source byte \<^verbatim>\<open>v\<close>, the two
  characters \<^verbatim>\<open>hextable[v>>4]\<close> and \<^verbatim>\<open>hextable[v&0x0f]\<close>.
\<close>

definition hextable :: string where
  "hextable = ''0123456789abcdef''"

fun EncodeToString :: "byte list \<Rightarrow> string" where
  "EncodeToString [] = []"
| "EncodeToString (v # src) =
     hextable ! unat (drop_bit 4 v) # hextable ! unat (v AND 0x0f) # EncodeToString src"

text \<open>
  \<^verbatim>\<open>crypto/subtle.ConstantTimeCompare\<close>: 0 when the lengths differ; otherwise the
  bytewise XOR of the two slices is OR-ed into one accumulator byte, and the result is 1
  exactly when that byte is 0. \<^verbatim>\<open>hmac.Equal\<close> is \<^verbatim>\<open>ConstantTimeCompare(mac1, mac2) == 1\<close>.
\<close>

fun xor_accumulate :: "byte \<Rightarrow> byte list \<Rightarrow> byte list \<Rightarrow> byte" where
  "xor_accumulate v (x # xs) (y # ys) = xor_accumulate (v OR (x XOR y)) xs ys"
| "xor_accumulate v _ _ = v"

definition ConstantTimeCompare :: "byte list \<Rightarrow> byte list \<Rightarrow> int" where
  "ConstantTimeCompare x y =
     (if length x \<noteq> length y then 0
      else if xor_accumulate 0 x y = 0 then 1 else 0)"

definition hmac_Equal :: "byte list \<Rightarrow> byte list \<Rightarrow> bool" where
  "hmac_Equal mac1 mac2 = (ConstantTimeCompare mac1 mac2 = 1)"

subsection \<open>The verifier\<close>

text \<open>
  The keyed digest \<^verbatim>\<open>hmac.New(sha256.New, key)\<close>, \<^verbatim>\<open>Write(body)\<close>, \<^verbatim>\<open>Sum(nil)\<close> belongs
  to the Go standard library. It is a parameter \<open>hmac_sha256 key body\<close> of every
  function that uses it; the only fact about it that a theorem below assumes is the
  digest size, \<^verbatim>\<open>sha256.Size\<close> = 32 bytes.
\<close>

type_synonym keyed_digest = "byte list \<Rightarrow> byte list \<Rightarrow> byte list"

record SignatureVerifier =
  secret :: "byte list"

definition NewSignatureVerifier :: "string \<Rightarrow> SignatureVerifier" where
  "NewSignatureVerifier s = \<lparr>secret = bytes_of s\<rparr>"

definition Verify :: "keyed_digest \<Rightarrow> SignatureVerifier \<Rightarrow> string \<Rightarrow> byte list \<Rightarrow> bool" where
  "Verify hmac_sha256 v signature body =
     (if signature = '''' then False
      else
        let expected = EncodeToString (hmac_sha256 (secret v) body)
        in hmac_Equal (bytes_of signature) (bytes_of expected))"

text \<open>\<^verbatim>\<open>computeSignature\<close> of signature_test.go: the signature a sender attaches.\<close>

definition computeSignature :: "keyed_digest \<Rightarrow> string \<Rightarrow> byte list \<Rightarrow> string" where
  "computeSignature hmac_sha256 s body = EncodeToString (hmac_sha256 (bytes_of s) body)"

subsection \<open>HTTP requests, responses and handlers\<close>

text \<open>
  A request carries its method, its headers (canonical name to value) and what
  \<^verbatim>\<open>io.ReadAll(r.Body)\<close> yields: an error or all the bytes of the body. A response is the
  status code and the bytes written. A handler runs against a state \<open>'s\<close> that holds
  whatever it can change; it either responds or panics.
\<close>

record Request =
  Method :: string
  Header :: "(string \<times> string) list"
  Body :: "string + byte list"

record Response =
  Code :: nat
  Written :: string

datatype Reply = Responded Response | Panicked

type_synonym 's Handler = "Request \<Rightarrow> 's \<Rightarrow> Reply \<times> 's"

definition Header_Get :: "(string \<times> string) list \<Rightarrow> string \<Rightarrow> string" where
  "Header_Get h key = (case map_of h key of None \<Rightarrow> '''' | Some v \<Rightarrow> v)"

definition StatusAccepted :: nat where "StatusAccepted = 202"
definition StatusBadRequest :: nat where "StatusBadRequest = 400"
definition StatusUnauthorized :: nat where "StatusUnauthorized = 401"
definition StatusMethodNotAllowed :: nat where "StatusMethodNotAllowed = 405"

text \<open>\<^verbatim>\<open>http.Error\<close> sets the status and prints the message followed by a newline.\<close>

definition http_Error :: "string \<Rightarrow> nat \<Rightarrow> Response" where
  "http_Error msg code = \<lparr>Code = code, Written = msg @ [CHR 0x0A]\<rparr>"

definition Middleware :: "keyed_digest \<Rightarrow> SignatureVerifier \<Rightarrow> 's Handler \<Rightarrow> 's Handler" where
  "Middleware hmac_sha256 v next r s =
     (let signature = Header_Get (Header r) ''Sentry-Hook-Signature''
      in if signature = '''' then
           (Responded (http_Error ''missing signature'' StatusUnauthorized), s)
         else
           (case Body r of
              Inl err \<Rightarrow> (Responded (http_Error ''failed to read body'' StatusBadRequest), s)
            | Inr body \<Rightarrow>
                if \<not> Verify hmac_sha256 v signature body then
                  (Responded (http_Error ''invalid signature'' StatusUnauthorized), s)
                else next (r\<lparr>Body := Inr body\<rparr>) s))"

subsection \<open>Single-bit mutations\<close>

text \<open>Bit \<open>k\<close> of byte \<open>i\<close> flipped; out of range, the sequence is left as it is.\<close>

definition flip_bit_at :: "nat \<Rightarrow> nat \<Rightarrow> byte list \<Rightarrow> byte list" where
  "flip_bit_at i k bs = (if i < length bs then bs[i := (bs ! i) XOR push_bit k 1] else bs)"

definition flip_bit_in_string :: "nat \<Rightarrow> nat \<Rightarrow> string \<Rightarrow> string" where
  "flip_bit_in_string i k s = string_of (flip_bit_at i k (bytes_of s))"

text \<open>An upper-case rendering of a hexadecimal digit string.\<close>

definition upper_digit :: "char \<Rightarrow> char" where
  "upper_digit c =
     (if c = CHR ''a'' then CHR ''A'' else if c = CHR ''b'' then CHR ''B''
      else if c = CHR ''c'' then CHR ''C'' else if c = CHR ''d'' then CHR ''D''
      else if c = CHR ''e'' then CHR ''E'' else if c = CHR ''f'' then CHR ''F'' else c)"

section \<open>Event normalizer (package webhook, types.go)\<close>

subsection \<open>Decoded JSON values\<close>

text \<open>
  What \<^verbatim>\<open>encoding/json\<close> stores in an \<^verbatim>\<open>interface{}\<close>: \<^verbatim>\<open>nil\<close>, \<^verbatim>\<open>bool\<close>,
  \<^verbatim>\<open>float64\<close>, \<^verbatim>\<open>string\<close>, \<^verbatim>\<open>[]interface{}\<close> and \<^verbatim>\<open>map[string]interface{}\<close>. A map
  is an association list read with \<^const>\<open>map_of\<close>; a number decoded from JSON is finite,
  so it is a rational. A type assertion \<^verbatim>\<open>x.(T)\<close> with \<^verbatim>\<open>ok\<close> is a \<open>case\<close> on the
  constructor; indexing a map at a missing key gives \<^verbatim>\<open>nil\<close>, for which every assertion
  fails.
\<close>

datatype json =
    JNull
  | JBool bool
  | JNumber rat
  | JString string
  | JArray "json list"
  | JObject "(string \<times> json) list"

text \<open>
  The conversion \<^verbatim>\<open>int(f)\<close> of a \<^verbatim>\<open>float64\<close> discards the fraction (truncation towards
  zero). Outside the range of the 64-bit \<^verbatim>\<open>int\<close> the Go specification leaves the value to
  the implementation; the model takes amd64's, the smallest \<^verbatim>\<open>int\<close>.
\<close>

definition float64_to_int :: "rat \<Rightarrow> int" where
  "float64_to_int f =
     (let t = (if f < 0 then - \<lfloor>- f\<rfloor> else \<lfloor>f\<rfloor>)
      in if - (2 ^ 63) \<le> t \<and> t < 2 ^ 63 then t else - (2 ^ 63))"

subsection \<open>The payload and the canonical record\<close>

text \<open>
  The structs of types.go, with the fields that \<^verbatim>\<open>ParseWebhook\<close> and the handler read or
  write. Go field names are kept; where two structs share a field name the field of the
  earlier record is written with its record's name (\<open>Issue.Title\<close>). A pointer field
  (\<^verbatim>\<open>*Issue\<close>, \<^verbatim>\<open>*Event\<close>) is an option, \<open>None\<close> for \<^verbatim>\<open>nil\<close>.
\<close>

record Project =
  Slug :: string

record Metadata =
  Type :: string
  Value :: string

record Issue =
  ID :: string
  Title :: string
  Culprit :: string
  Permalink :: string
  Level :: string
  Platform :: string
  Project :: Project
  Metadata :: Metadata

record Entry =
  Type :: string
  Data :: json

record Event =
  Entries :: "Entry list"

record WebhookData =
  Issue :: "Issue option"
  Event :: "Event option"

record SentryWebhook =
  Action :: string
  Data :: WebhookData

record Frame =
  Filename :: string
  AbsPath :: string
  Module :: string
  Function :: string
  InApp :: bool
  LineNo :: int
  ColNo :: int

record ParsedError =
  IssueID :: string
  ProjectSlug :: string
  Title :: string
  ErrorType :: string
  ErrorMessage :: string
  Level :: string
  Platform :: string
  Culprit :: string
  Frames :: "Frame list"
  Permalink :: string

subsection \<open>\<^verbatim>\<open>ParseWebhook\<close>\<close>

definition getBool :: "(string \<times> json) list \<Rightarrow> string \<Rightarrow> bool" where
  "getBool m key = (case map_of m key of Some (JBool v) \<Rightarrow> v | _ \<Rightarrow> False)"

text \<open>
  The body of the innermost loop: a \<^verbatim>\<open>Frame\<close> whose only initialised field is
  \<^verbatim>\<open>InApp\<close>, then one assignment for each field whose key holds a value of the right type.
\<close>

definition extract_frame :: "(string \<times> json) list \<Rightarrow> Frame" where
  "extract_frame fm =
     (let frame = \<lparr>Filename = '''', AbsPath = '''', Module = '''', Function = '''',
                   InApp = getBool fm ''inApp'', LineNo = 0, ColNo = 0\<rparr>;
          frame = (case map_of fm ''filename'' of
                     Some (JString filename) \<Rightarrow> frame\<lparr>Filename := filename\<rparr> | _ \<Rightarrow> frame);
          frame = (case map_of fm ''absPath'' of
                     Some (JString absPath) \<Rightarrow> frame\<lparr>AbsPath := absPath\<rparr> | _ \<Rightarrow> frame);
          frame = (case map_of fm ''function'' of
                     Some (JString function) \<Rightarrow> frame\<lparr>Function := function\<rparr> | _ \<Rightarrow> frame);
          frame = (case map_of fm ''lineNo'' of
                     Some (JNumber lineNo) \<Rightarrow> frame\<lparr>LineNo := float64_to_int lineNo\<rparr> | _ \<Rightarrow> frame);
          frame = (case map_of fm ''colNo'' of
                     Some (JNumber colNo) \<Rightarrow> frame\<lparr>ColNo := float64_to_int colNo\<rparr> | _ \<Rightarrow> frame);
          frame = (case map_of fm ''module'' of
                     Some (JString modul) \<Rightarrow> frame\<lparr>Module := modul\<rparr> | _ \<Rightarrow> frame)
      in frame)"

text \<open>
  The three nested \<^verbatim>\<open>range\<close> loops, innermost first. Each takes the slice it ranges over
  and \<^verbatim>\<open>parsed.Frames\<close> as it stands, and returns \<^verbatim>\<open>parsed.Frames\<close> after the loop.
\<close>

fun frames_loop :: "json list \<Rightarrow> Frame list \<Rightarrow> Frame list" where
  "frames_loop [] acc = acc"
| "frames_loop (f # frames) acc =
     (case f of
        JObject fm \<Rightarrow> frames_loop frames (acc @ [extract_frame fm])
      | _ \<Rightarrow> frames_loop frames acc)"

fun values_loop :: "json list \<Rightarrow> Frame list \<Rightarrow> Frame list" where
  "values_loop [] acc = acc"
| "values_loop (v # values) acc =
     (case v of
        JObject val \<Rightarrow>
          (case map_of val ''stacktrace'' of
             Some (JObject st) \<Rightarrow>
               (case map_of st ''frames'' of
                  Some (JArray frames) \<Rightarrow> values_loop values (frames_loop frames acc)
                | _ \<Rightarrow> values_loop values acc)
           | _ \<Rightarrow> values_loop values acc)
      | _ \<Rightarrow> values_loop values acc)"

fun entries_loop :: "Entry list \<Rightarrow> Frame list \<Rightarrow> Frame list" where
  "entries_loop [] acc = acc"
| "entries_loop (entry # entries) acc =
     (if Entry.Type entry = ''exception'' then
        (case Entry.Data entry of
           JObject data \<Rightarrow>
             (case map_of data ''values'' of
                Some (JArray values) \<Rightarrow> entries_loop entries (values_loop values acc)
              | _ \<Rightarrow> entries_loop entries acc)
         | _ \<Rightarrow> entries_loop entries acc)
      else entries_loop entries acc)"

definition ParseWebhook :: "SentryWebhook \<Rightarrow> ParsedError option" where
  "ParseWebhook wh =
     (case Issue (SentryWebhook.Data wh) of
        None \<Rightarrow> None
      | Some issue \<Rightarrow>
          let parsed = \<lparr>IssueID = ID issue,
                        ProjectSlug = Slug (Project issue),
                        Title = Issue.Title issue,
                        ErrorType = Metadata.Type (Metadata issue),
                        ErrorMessage = Value (Metadata issue),
                        Level = Issue.Level issue,
                        Platform = Issue.Platform issue,
                        Culprit = Issue.Culprit issue,
                        Frames = [],
                        Permalink = Issue.Permalink issue\<rparr>;
              parsed = (case Event (SentryWebhook.Data wh) of
                          None \<Rightarrow> parsed
                        | Some event \<Rightarrow>
                            parsed\<lparr>Frames := entries_loop (Entries event) (Frames parsed)\<rparr>)
          in Some parsed)"

subsection \<open>The frames a payload carries\<close>

text \<open>
  The specification's reading of the payload, independent of \<^const>\<open>ParseWebhook\<close>: stack
  frames are found only under entries of type "exception", through
  \<^verbatim>\<open>values[]\<close>, \<^verbatim>\<open>stacktrace\<close> and \<^verbatim>\<open>frames[]\<close>; a frame is a JSON object; every other
  entry is ignored.
\<close>

definition value_frames :: "json \<Rightarrow> (string \<times> json) list list" where
  "value_frames v =
     (case v of
        JObject val \<Rightarrow>
          (case map_of val ''stacktrace'' of
             Some (JObject st) \<Rightarrow>
               (case map_of st ''frames'' of
                  Some (JArray frames) \<Rightarrow> [fm. JObject fm \<leftarrow> frames]
                | _ \<Rightarrow> [])
           | _ \<Rightarrow> [])
      | _ \<Rightarrow> [])"

definition entry_frames :: "Entry \<Rightarrow> (string \<times> json) list list" where
  "entry_frames entry =
     (if Entry.Type entry = ''exception'' then
        (case Entry.Data entry of
           JObject data \<Rightarrow>
             (case map_of data ''values'' of
                Some (JArray values) \<Rightarrow> concat (map value_frames values)
              | _ \<Rightarrow> [])
         | _ \<Rightarrow> [])
      else [])"

definition payload_frames :: "SentryWebhook \<Rightarrow> (string \<times> json) list list" where
  "payload_frames wh =
     (case Event (SentryWebhook.Data wh) of
        None \<Rightarrow> []
      | Some event \<Rightarrow> concat (map entry_frames (Entries event)))"

text \<open>
  The value a frame has for a key: the string, or the number narrowed to an integer,
  when the key holds one; the zero value otherwise.
\<close>

definition string_or :: "json option \<Rightarrow> string \<Rightarrow> string" where
  "string_or x d = (case x of Some (JString s) \<Rightarrow> s | _ \<Rightarrow> d)"

definition number_or :: "json option \<Rightarrow> int \<Rightarrow> int" where
  "number_or x d = (case x of Some (JNumber n) \<Rightarrow> float64_to_int n | _ \<Rightarrow> d)"

definition string_field :: "(string \<times> json) list \<Rightarrow> string \<Rightarrow> string" where
  "string_field fm key = string_or (map_of fm key) ''''"

definition number_field :: "(string \<times> json) list \<Rightarrow> string \<Rightarrow> int" where
  "number_field fm key = number_or (map_of fm key) 0"

section \<open>Webhook handler and job queue (package webhook, handler.go)\<close>

record Job =
  Webhook :: SentryWebhook
  ParsedError :: ParsedError

text \<open>
  The buffered channel \<^verbatim>\<open>make(chan Job, n)\<close>: the jobs it holds, oldest first, and its
  capacity. The handler's \<^verbatim>\<open>select\<close> with a \<^verbatim>\<open>default\<close> case sends when the buffer has
  room and otherwise takes the default case at once; it never waits. The dispatcher
  (\<^verbatim>\<open>processJobs\<close>) receives the oldest job.
\<close>

record Chan =
  buffered :: "Job list"
  cap :: nat

definition select_send :: "Job \<Rightarrow> Chan \<Rightarrow> bool \<times> Chan" where
  "select_send job ch =
     (if length (buffered ch) < cap ch then (True, ch\<lparr>buffered := buffered ch @ [job]\<rparr>)
      else (False, ch))"

definition receive :: "Chan \<Rightarrow> Job option \<times> Chan" where
  "receive ch =
     (case buffered ch of
        [] \<Rightarrow> (None, ch)
      | job # rest \<Rightarrow> (Some job, ch\<lparr>buffered := rest\<rparr>))"

text \<open>
  \<^verbatim>\<open>json.Unmarshal(body, &webhook)\<close> is a parameter: it yields an error or the decoded
  envelope. The \<^verbatim>\<open>log.Printf\<close> calls leave no trace in the model, except the one that
  follows decoding: its argument \<^verbatim>\<open>webhook.Data.Issue.ID\<close> reads through the pointer
  \<^verbatim>\<open>Issue\<close>, which panics when the pointer is \<^verbatim>\<open>nil\<close>.
\<close>

type_synonym decoder = "byte list \<Rightarrow> string + SentryWebhook"

definition ServeHTTP :: "decoder \<Rightarrow> Chan Handler" where
  \<open>ServeHTTP json_Unmarshal r jobQueue =
     (if Method r \<noteq> ''POST'' then
        (Responded (http_Error ''method not allowed'' StatusMethodNotAllowed), jobQueue)
      else
        (case Body r of
           Inl err \<Rightarrow> (Responded (http_Error ''failed to read body'' StatusBadRequest), jobQueue)
         | Inr body \<Rightarrow>
             (case json_Unmarshal body of
                Inl err \<Rightarrow> (Responded (http_Error ''invalid payload'' StatusBadRequest), jobQueue)
              | Inr webhook \<Rightarrow>
                  (case Issue (SentryWebhook.Data webhook) of
                     None \<Rightarrow> (Panicked, jobQueue)
                   | Some logged \<Rightarrow>
                       if Action webhook \<noteq> ''created'' \<and> Action webhook \<noteq> ''triggered'' then
                         (Responded \<lparr>Code = StatusAccepted, Written = ''''\<rparr>, jobQueue)
                       else
                         (case ParseWebhook webhook of
                            None \<Rightarrow> (Responded \<lparr>Code = StatusAccepted, Written = ''''\<rparr>, jobQueue)
                          | Some parsed \<Rightarrow>
                              let (sent, jobQueue') =
                                    select_send \<lparr>Webhook = webhook, ParsedError = parsed\<rparr> jobQueue
                              in (Responded \<lparr>Code = StatusAccepted,
                                             Written = ''{"status":"queued"}''\<rparr>, jobQueue'))))))\<close>

section \<open>Concrete inputs\<close>

text \<open>
  A 32-byte keyed digest used where a theorem is instantiated at a concrete input. It
  makes no claim to be HMAC-SHA256; it has the digest size and depends on key and body.
\<close>

definition sample_digest :: keyed_digest where
  "sample_digest key body = take 32 (body @ key @ replicate 32 0)"

definition sample_body :: "byte list" where
  "sample_body = bytes_of ''{}''"

definition counting_handler :: "nat Handler" where
  "counting_handler r n = (Responded \<lparr>Code = 200, Written = ''''\<rparr>, Suc n)"

text \<open>Envelopes as \<^verbatim>\<open>json.Unmarshal\<close> fills them, and the bodies they are decoded from.\<close>

definition empty_issue :: Issue where
  "empty_issue =
     \<lparr>ID = '''', Issue.Title = '''', Issue.Culprit = '''', Issue.Permalink = '''',
      Issue.Level = '''', Issue.Platform = '''', Project = \<lparr>Slug = ''''\<rparr>,
      Metadata = \<lparr>Metadata.Type = '''', Value = ''''\<rparr>\<rparr>"

definition test_issue :: Issue where
  "test_issue =
     empty_issue\<lparr>ID := ''12345'', Issue.Title := ''Test Error'', Issue.Level := ''error'',
                 Project := \<lparr>Slug = ''test-project''\<rparr>\<rparr>"

definition test_event :: Event where
  "test_event =
     \<lparr>Entries =
        [\<lparr>Entry.Type = ''breadcrumbs'',
          Data = JObject [(''values'', JArray [JObject [(''category'', JString ''http'')]])]\<rparr>,
         \<lparr>Entry.Type = ''exception'',
          Data = JObject [(''values'', JArray
            [JObject [(''type'', JString ''ValueError''),
                      (''stacktrace'', JObject [(''frames'', JArray
                         [JObject [(''filename'', JString ''lib/run.py''), (''inApp'', JBool False),
                                   (''lineNo'', JNumber 88)],
                          JObject [(''function'', JString ''handle''), (''inApp'', JBool True)],
                          JObject []])])]])]\<rparr>]\<rparr>"

definition envelope_without_issue :: SentryWebhook where
  "envelope_without_issue = \<lparr>Action = ''resolved'', Data = \<lparr>Issue = None, Event = None\<rparr>\<rparr>"

definition envelope_event_only :: SentryWebhook where
  "envelope_event_only =
     \<lparr>Action = ''triggered'', Data = \<lparr>Issue = None, Event = Some test_event\<rparr>\<rparr>"

definition envelope_with_empty_issue :: SentryWebhook where
  "envelope_with_empty_issue =
     \<lparr>Action = ''created'', Data = \<lparr>Issue = Some empty_issue, Event = None\<rparr>\<rparr>"

definition envelope_created :: SentryWebhook where
  "envelope_created =
     \<lparr>Action = ''created'', Data = \<lparr>Issue = Some test_issue, Event = Some test_event\<rparr>\<rparr>"

definition body_without_issue :: "byte list" where
  \<open>body_without_issue = bytes_of ''{"action":"resolved"}''\<close>

definition body_with_empty_issue :: "byte list" where
  \<open>body_with_empty_issue = bytes_of ''{"action":"created","data":{"issue":{}}}''\<close>

definition body_created :: "byte list" where
  \<open>body_created = bytes_of
     (''{"action":"created","data":{"issue":{"id":"12345","title":"Test Error",''
      @ ''"level":"error","project":{"slug":"test-project"}},''
      @ ''"event":{"entries":[{"type":"breadcrumbs","data":{"values":[{"category":"http"}]}},''
      @ ''{"type":"exception","data":{"values":[{"type":"ValueError","stacktrace":{"frames":[''
      @ ''{"filename":"lib/run.py","inApp":false,"lineNo":88},''
      @ ''{"function":"handle","inApp":true},{}]}}]}}]}}}'')\<close>

text \<open>A decoder that knows these bodies and rejects every other one.\<close>

definition fixture_decoder :: decoder where
  "fixture_decoder body =
     (if body = body_without_issue then Inr envelope_without_issue
      else if body = body_with_empty_issue then Inr envelope_with_empty_issue
      else if body = body_created then Inr envelope_created
      else Inl ''invalid character'')"

definition post :: "byte list \<Rightarrow> Request" where
  "post body = \<lparr>Method = ''POST'', Header = [], Body = Inr body\<rparr>"

definition queued_job :: Job where
  "queued_job =
     \<lparr>Webhook = envelope_with_empty_issue,
      ParsedError = \<lparr>IssueID = [], ProjectSlug = [], Title = [], ErrorType = [],
                     ErrorMessage = [], Level = [], Platform = [], Culprit = [],
                     Frames = [], Permalink = []\<rparr>\<rparr>"

definition full_queue :: Chan where
  "full_queue = \<lparr>buffered = [queued_job], cap = 1\<rparr>"

section \<open>Properties of the signature gate\<close>

lemma unat_high_nibble: "unat (drop_bit 4 (v::byte)) = unat v div 16"
  by (simp add: unat_drop_bit_eq drop_bit_eq_div unat_div)

lemma unat_low_nibble: "unat ((v::byte) AND 0x0f) = unat v mod 16"
proof -
  have "v AND 0x0f = take_bit 4 v"
    by (simp add: take_bit_eq_mask mask_eq_exp_minus_1)
  then show ?thesis
    by (simp add: unsigned_take_bit_eq take_bit_eq_mod unat_mod)
qed

lemma unat_byte_less: "unat (v::byte) < 256"
  using unsigned_less [of v, where ?'a = nat] by simp

lemma distinct_hextable: "distinct hextable"
  by (simp add: hextable_def)

lemma length_hextable: "length hextable = 16"
  by (simp add: hextable_def)

lemma hextable_nth_inj:
  assumes "i < 16" "j < 16" "hextable ! i = hextable ! j"
  shows "i = j"
  using assms distinct_hextable length_hextable by (simp add: nth_eq_iff_index_eq)

lemma byte_from_nibbles:
  assumes "unat (a::byte) div 16 = unat (b::byte) div 16" "unat a mod 16 = unat b mod 16"
  shows "a = b"
proof -
  have "unat a = 16 * (unat a div 16) + unat a mod 16" by simp
  also have "\<dots> = 16 * (unat b div 16) + unat b mod 16" using assms by simp
  also have "\<dots> = unat b" by simp
  finally show ?thesis by (simp add: word_unat_eq_iff)
qed

lemma EncodeToString_inj: "EncodeToString xs = EncodeToString ys \<Longrightarrow> xs = ys"
proof (induction xs arbitrary: ys)
  case Nil
  then show ?case by (cases ys) simp_all
next
  case (Cons a xs)
  then obtain b ys' where ys: "ys = b # ys'" by (cases ys) auto
  from Cons.prems ys
  have hi: "hextable ! unat (drop_bit 4 a) = hextable ! unat (drop_bit 4 b)"
    and lo: "hextable ! unat (a AND 0x0f) = hextable ! unat (b AND 0x0f)"
    and rest: "EncodeToString xs = EncodeToString ys'"
    by simp_all
  have "unat a div 16 < 16" "unat b div 16 < 16"
    using unat_byte_less [of a] unat_byte_less [of b] by simp_all
  with hi have "unat a div 16 = unat b div 16"
    by (auto simp: unat_high_nibble intro: hextable_nth_inj)
  moreover from lo have "unat a mod 16 = unat b mod 16"
    by (auto simp: unat_low_nibble intro: hextable_nth_inj)
  ultimately have "a = b" by (rule byte_from_nibbles)
  with rest Cons.IH ys show ?case by simp
qed

lemma length_EncodeToString: "length (EncodeToString xs) = 2 * length xs"
  by (induction xs) simp_all

lemma set_EncodeToString: "set (EncodeToString xs) \<subseteq> set hextable"
proof (induction xs)
  case Nil
  then show ?case by simp
next
  case (Cons v xs)
  have "unat (drop_bit 4 v) < length hextable"
    using unat_byte_less [of v] by (simp add: unat_high_nibble length_hextable)
  moreover have "unat (v AND 0x0f) < length hextable"
    by (simp add: unat_low_nibble length_hextable)
  ultimately show ?case using Cons by simp
qed

lemma byte_of_char_inj:
  assumes "(of_nat (of_char c) :: byte) = of_nat (of_char d)"
  shows "c = d"
proof -
  from assms have "unat (of_nat (of_char c) :: byte) = unat (of_nat (of_char d) :: byte)"
    by simp
  then have "(of_char c :: nat) mod 256 = of_char d mod 256"
    by (simp add: unat_of_nat)
  then show ?thesis by simp
qed

lemma bytes_of_inj: "bytes_of s = bytes_of t \<Longrightarrow> s = t"
proof (induction s arbitrary: t)
  case Nil
  then show ?case by (simp add: bytes_of_def)
next
  case (Cons c s)
  then obtain d t' where t: "t = d # t'" by (cases t) (auto simp: bytes_of_def)
  with Cons.prems have "(of_nat (of_char c) :: byte) = of_nat (of_char d)"
    and "bytes_of s = bytes_of t'"
    by (simp_all add: bytes_of_def)
  with Cons.IH t show ?case by (simp add: byte_of_char_inj)
qed

lemma bytes_of_string_of: "bytes_of (string_of bs) = bs"
proof (induction bs)
  case Nil
  then show ?case by (simp add: bytes_of_def string_of_def)
next
  case (Cons b bs)
  have "(of_nat (of_char (char_of (unat b))) :: byte) = b"
    using unat_byte_less [of b] by (simp add: of_char_of)
  with Cons show ?case by (simp add: bytes_of_def string_of_def)
qed

lemma xor_accumulate_zero:
  "length xs = length ys \<Longrightarrow> xor_accumulate v xs ys = 0 \<longleftrightarrow> v = 0 \<and> xs = ys"
proof (induction xs ys arbitrary: v rule: list_induct2)
  case Nil
  then show ?case by simp
next
  case (Cons x xs y ys)
  have "x XOR y = 0 \<longleftrightarrow> x = y"
    by (metis bit.xor_left_self xor.right_neutral)
  with Cons.IH [of "v OR (x XOR y)"] show ?case
    by (auto simp: or_eq_0_iff)
qed

lemma hmac_Equal_iff: "hmac_Equal x y \<longleftrightarrow> x = y"
proof (cases "length x = length y")
  case True
  then show ?thesis
    by (simp add: hmac_Equal_def ConstantTimeCompare_def xor_accumulate_zero)
next
  case False
  then show ?thesis
    by (auto simp: hmac_Equal_def ConstantTimeCompare_def)
qed

lemma Verify_iff:
  "Verify mac v signature body \<longleftrightarrow>
     signature \<noteq> '''' \<and> signature = EncodeToString (mac (secret v) body)"
  by (auto simp: Verify_def Let_def hmac_Equal_iff dest: bytes_of_inj)

lemma flip_byte_neq:
  assumes "k < 8"
  shows "(x::byte) XOR push_bit k 1 \<noteq> x"
proof
  assume "x XOR push_bit k 1 = x"
  then have "x XOR (x XOR push_bit k 1) = x XOR x" by simp
  then have "(push_bit k 1 :: byte) = 0" by (simp add: xor.assoc [symmetric])
  with assms show False by (simp add: push_bit_of_1 exp_eq_zero_iff)
qed

lemma flip_bit_at_neq:
  assumes "i < length bs" "k < 8"
  shows "flip_bit_at i k bs \<noteq> bs"
proof
  assume "flip_bit_at i k bs = bs"
  then have "flip_bit_at i k bs ! i = bs ! i" by simp
  with assms(1) have "(bs ! i) XOR push_bit k 1 = bs ! i"
    by (simp add: flip_bit_at_def)
  with flip_byte_neq [OF assms(2)] show False by blast
qed

lemma flip_bit_in_string_neq:
  assumes "i < length s" "k < 8"
  shows "flip_bit_in_string i k s \<noteq> s"
proof
  assume "flip_bit_in_string i k s = s"
  then have "bytes_of (flip_bit_in_string i k s) = bytes_of s" by simp
  then have "flip_bit_at i k (bytes_of s) = bytes_of s"
    by (simp add: flip_bit_in_string_def bytes_of_string_of)
  moreover have "i < length (bytes_of s)" using assms(1) by (simp add: bytes_of_def)
  ultimately show False using flip_bit_at_neq assms(2) by blast
qed

text \<open>
  C1. The hexadecimal HMAC of the body under the verifier's secret is accepted; every
  other signature string is rejected for that body. In particular a signature with one
  bit flipped is rejected, and the signature of a body is rejected for that body with one
  bit flipped whenever the flip changes the digest.
\<close>

theorem Verify_accepts_exactly_the_computed_signature:
  assumes "length (hmac_sha256 (bytes_of s) body) = 32"
  shows "Verify hmac_sha256 (NewSignatureVerifier s) (computeSignature hmac_sha256 s body) body
    \<and> (\<forall>signature. signature \<noteq> computeSignature hmac_sha256 s body \<longrightarrow>
          \<not> Verify hmac_sha256 (NewSignatureVerifier s) signature body)
    \<and> (\<forall>i k. i < 64 \<and> k < 8 \<longrightarrow>
          \<not> Verify hmac_sha256 (NewSignatureVerifier s)
              (flip_bit_in_string i k (computeSignature hmac_sha256 s body)) body)
    \<and> (\<forall>i k. hmac_sha256 (bytes_of s) (flip_bit_at i k body) \<noteq> hmac_sha256 (bytes_of s) body \<longrightarrow>
          \<not> Verify hmac_sha256 (NewSignatureVerifier s)
              (computeSignature hmac_sha256 s body) (flip_bit_at i k body))"
proof -
  let ?v = "NewSignatureVerifier s"
  let ?sig = "computeSignature hmac_sha256 s body"
  have len: "length ?sig = 64"
    using assms by (simp add: computeSignature_def length_EncodeToString)
  then have nonempty: "?sig \<noteq> ''''" by auto
  have accept: "Verify hmac_sha256 ?v ?sig body"
    using nonempty by (simp add: Verify_iff computeSignature_def NewSignatureVerifier_def)
  have reject: "\<not> Verify hmac_sha256 ?v signature body" if "signature \<noteq> ?sig" for signature
    using that by (simp add: Verify_iff computeSignature_def NewSignatureVerifier_def)
  have flipped: "\<not> Verify hmac_sha256 ?v (flip_bit_in_string i k ?sig) body"
    if "i < 64 \<and> k < 8" for i k
    using that len reject flip_bit_in_string_neq [of i ?sig k] by simp
  have body_flipped: "\<not> Verify hmac_sha256 ?v ?sig (flip_bit_at i k body)"
    if "hmac_sha256 (bytes_of s) (flip_bit_at i k body) \<noteq> hmac_sha256 (bytes_of s) body" for i k
    using that
    by (auto simp: Verify_iff computeSignature_def NewSignatureVerifier_def
        dest: EncodeToString_inj)
  from accept reject flipped body_flipped show ?thesis by blast
qed

lemma sample_signature_eval:
  "computeSignature sample_digest ''s3cret'' sample_body =
     ''7b7d733363726574000000000000000000000000000000000000000000000000''"
  by code_simp

theorem Verify_accepts_exactly_the_computed_signature_witness:
  "length (sample_digest (bytes_of ''s3cret'') sample_body) = 32
   \<and> Verify sample_digest (NewSignatureVerifier ''s3cret'')
       (computeSignature sample_digest ''s3cret'' sample_body) sample_body
   \<and> \<not> Verify sample_digest (NewSignatureVerifier ''s3cret'') ''invalid-signature'' sample_body
   \<and> \<not> Verify sample_digest (NewSignatureVerifier ''s3cret'')
       (flip_bit_in_string 0 0 (computeSignature sample_digest ''s3cret'' sample_body)) sample_body
   \<and> \<not> Verify sample_digest (NewSignatureVerifier ''s3cret'')
       (computeSignature sample_digest ''s3cret'' sample_body) (flip_bit_at 0 0 sample_body)"
proof -
  have h: "length (sample_digest (bytes_of ''s3cret'') sample_body) = 32"
    by (simp add: sample_digest_def)
  have ne: "''invalid-signature'' \<noteq> computeSignature sample_digest ''s3cret'' sample_body"
    by (simp add: sample_signature_eval)
  have d: "sample_digest (bytes_of ''s3cret'') (flip_bit_at 0 0 sample_body)
            \<noteq> sample_digest (bytes_of ''s3cret'') sample_body"
    by (simp add: sample_digest_def sample_body_def bytes_of_def flip_bit_at_def)
  have b: "(0::nat) < 64 \<and> (0::nat) < 8" by simp
  show ?thesis
    using h ne d b
      Verify_accepts_exactly_the_computed_signature [of sample_digest "''s3cret''" sample_body]
    by blast
qed

text \<open>
  C10. An accepted signature is the lower-case hexadecimal encoding of the digest, digit
  for digit: a signature with any of the letters A to F in it is rejected, and so is the
  upper-case rendering of the computed signature whenever that signature has a letter at
  all.
\<close>

theorem Verify_accepts_only_lowercase_hex:
  "(Verify hmac_sha256 v signature body \<longrightarrow>
      signature = EncodeToString (hmac_sha256 (secret v) body)
      \<and> set signature \<subseteq> set ''0123456789abcdef'')
   \<and> ((\<exists>c \<in> set signature. c \<in> set ''ABCDEF'') \<longrightarrow> \<not> Verify hmac_sha256 v signature body)
   \<and> ((\<exists>c \<in> set (EncodeToString (hmac_sha256 (secret v) body)). c \<in> set ''abcdef'') \<longrightarrow>
        \<not> Verify hmac_sha256 v
            (map upper_digit (EncodeToString (hmac_sha256 (secret v) body))) body)"
proof -
  let ?e = "EncodeToString (hmac_sha256 (secret v) body)"
  have lower: "set ?e \<subseteq> set ''0123456789abcdef''"
    using set_EncodeToString [of "hmac_sha256 (secret v) body"] by (simp add: hextable_def)
  have first: "signature = ?e \<and> set signature \<subseteq> set ''0123456789abcdef''"
    if "Verify hmac_sha256 v signature body"
    using that lower by (simp add: Verify_iff)
  have second: "\<not> Verify hmac_sha256 v signature body"
    if "\<exists>c \<in> set signature. c \<in> set ''ABCDEF''" for signature
  proof
    assume "Verify hmac_sha256 v signature body"
    then have "set signature \<subseteq> set ''0123456789abcdef''"
      using lower by (simp add: Verify_iff)
    with that show False by auto
  qed
  have third: "\<not> Verify hmac_sha256 v (map upper_digit ?e) body"
    if "\<exists>c \<in> set ?e. c \<in> set ''abcdef''"
  proof -
    from that obtain c where "c \<in> set ?e" "c \<in> set ''abcdef''" by blast
    then have "upper_digit c \<in> set (map upper_digit ?e)" "upper_digit c \<in> set ''ABCDEF''"
      by (auto simp: upper_digit_def)
    then show ?thesis using second by blast
  qed
  from first second third show ?thesis by blast
qed

theorem Verify_accepts_only_lowercase_hex_witness:
  "Verify sample_digest (NewSignatureVerifier ''s3cret'')
      ''7b7d733363726574000000000000000000000000000000000000000000000000'' sample_body
   \<and> \<not> Verify sample_digest (NewSignatureVerifier ''s3cret'')
      ''7B7D733363726574000000000000000000000000000000000000000000000000'' sample_body"
proof -
  let ?v = "NewSignatureVerifier ''s3cret''"
  let ?lower = "''7b7d733363726574000000000000000000000000000000000000000000000000''"
  have e: "EncodeToString (sample_digest (secret ?v) sample_body) = ?lower"
    using sample_signature_eval by (simp add: computeSignature_def NewSignatureVerifier_def)
  have ok: "Verify sample_digest ?v ?lower sample_body"
    using e by (simp add: Verify_iff)
  have has: "\<exists>c \<in> set (EncodeToString (sample_digest (secret ?v) sample_body)). c \<in> set ''abcdef''"
    unfolding e by simp
  have up: "map upper_digit ?lower =
      ''7B7D733363726574000000000000000000000000000000000000000000000000''"
    by (simp add: upper_digit_def)
  from Verify_accepts_only_lowercase_hex [of sample_digest ?v ?lower sample_body] has
  have "\<not> Verify sample_digest ?v (map upper_digit ?lower) sample_body"
    unfolding e by blast
  with ok up show ?thesis by simp
qed

text \<open>
  C7. A request without a signature header is answered 401; one whose body cannot be read
  is answered 400; one whose signature is not the expected HMAC of its body is answered
  401. In each case the state the next handler works on is returned untouched, whatever
  that handler is: it is not called.
\<close>

theorem Middleware_rejects_without_calling_next:
  "(Header_Get (Header r) ''Sentry-Hook-Signature'' = '''' \<longrightarrow>
      Middleware hmac_sha256 v next r s =
        (Responded \<lparr>Code = 401, Written = ''missing signature'' @ [CHR 0x0A]\<rparr>, s))
   \<and> (Header_Get (Header r) ''Sentry-Hook-Signature'' \<noteq> '''' \<and> Body r = Inl err \<longrightarrow>
      Middleware hmac_sha256 v next r s =
        (Responded \<lparr>Code = 400, Written = ''failed to read body'' @ [CHR 0x0A]\<rparr>, s))
   \<and> (Header_Get (Header r) ''Sentry-Hook-Signature'' \<noteq> '''' \<and> Body r = Inr body
       \<and> Header_Get (Header r) ''Sentry-Hook-Signature''
            \<noteq> EncodeToString (hmac_sha256 (secret v) body) \<longrightarrow>
      Middleware hmac_sha256 v next r s =
        (Responded \<lparr>Code = 401, Written = ''invalid signature'' @ [CHR 0x0A]\<rparr>, s))"
  by (simp add: Middleware_def Let_def http_Error_def Verify_iff
      StatusUnauthorized_def StatusBadRequest_def)

theorem Middleware_rejects_without_calling_next_witness:
  "Middleware sample_digest (NewSignatureVerifier ''s3cret'') counting_handler
       \<lparr>Method = ''POST'', Header = [], Body = Inr sample_body\<rparr> 0
     = (Responded \<lparr>Code = 401, Written = ''missing signature'' @ [CHR 0x0A]\<rparr>, 0)
   \<and> Middleware sample_digest (NewSignatureVerifier ''s3cret'') counting_handler
       \<lparr>Method = ''POST'', Header = [(''Sentry-Hook-Signature'', ''invalid'')],
        Body = Inl ''unexpected EOF''\<rparr> 0
     = (Responded \<lparr>Code = 400, Written = ''failed to read body'' @ [CHR 0x0A]\<rparr>, 0)
   \<and> Middleware sample_digest (NewSignatureVerifier ''s3cret'') counting_handler
       \<lparr>Method = ''POST'', Header = [(''Sentry-Hook-Signature'', ''invalid'')],
        Body = Inr sample_body\<rparr> 0
     = (Responded \<lparr>Code = 401, Written = ''invalid signature'' @ [CHR 0x0A]\<rparr>, 0)"
proof -
  let ?v = "NewSignatureVerifier ''s3cret''"
  let ?h = "[(''Sentry-Hook-Signature'', ''invalid'')]"
  have e: "EncodeToString (sample_digest (secret ?v) sample_body) \<noteq> ''invalid''"
    using sample_signature_eval by (simp add: computeSignature_def NewSignatureVerifier_def)
  show ?thesis
    using e
      Middleware_rejects_without_calling_next
        [of "\<lparr>Method = ''POST'', Header = [], Body = Inr sample_body\<rparr>"
            sample_digest ?v counting_handler 0]
      Middleware_rejects_without_calling_next
        [of "\<lparr>Method = ''POST'', Header = ?h, Body = Inl ''unexpected EOF''\<rparr>"
            sample_digest ?v counting_handler 0 "''unexpected EOF''"]
      Middleware_rejects_without_calling_next
        [of "\<lparr>Method = ''POST'', Header = ?h, Body = Inr sample_body\<rparr>"
            sample_digest ?v counting_handler 0 _ sample_body]
    by (simp add: Header_Get_def)
qed

section \<open>Properties of the event normalizer\<close>

lemma frames_loop_append:
  "frames_loop frames acc = acc @ map extract_frame [fm. JObject fm \<leftarrow> frames]"
  by (induction frames arbitrary: acc) (auto split: json.splits)

lemma values_loop_append:
  "values_loop values acc = acc @ map extract_frame (concat (map value_frames values))"
proof (induction "values" arbitrary: acc)
  case Nil
  then show ?case by simp
next
  case (Cons v vs)
  show ?case
    by (simp add: Cons.IH value_frames_def frames_loop_append
        split: json.splits option.splits)
qed

lemma entries_loop_append:
  "entries_loop entries acc = acc @ map extract_frame (concat (map entry_frames entries))"
proof (induction entries arbitrary: acc)
  case Nil
  then show ?case by simp
next
  case (Cons e es)
  show ?case
    by (simp add: Cons.IH entry_frames_def values_loop_append
        split: json.splits option.splits)
qed

lemma ParseWebhook_Frames:
  "ParseWebhook wh = Some parsed \<Longrightarrow> Frames parsed = map extract_frame (payload_frames wh)"
  by (auto simp: ParseWebhook_def payload_frames_def Let_def entries_loop_append
      split: option.splits)

lemma assign_Filename:
  "(case x of Some (JString s) \<Rightarrow> (frame::Frame)\<lparr>Filename := s\<rparr> | _ \<Rightarrow> frame)
     = frame\<lparr>Filename := string_or x (Filename frame)\<rparr>"
  by (simp add: string_or_def split: option.splits json.splits)

lemma assign_AbsPath:
  "(case x of Some (JString s) \<Rightarrow> (frame::Frame)\<lparr>AbsPath := s\<rparr> | _ \<Rightarrow> frame)
     = frame\<lparr>AbsPath := string_or x (AbsPath frame)\<rparr>"
  by (simp add: string_or_def split: option.splits json.splits)

lemma assign_Function:
  "(case x of Some (JString s) \<Rightarrow> (frame::Frame)\<lparr>Function := s\<rparr> | _ \<Rightarrow> frame)
     = frame\<lparr>Function := string_or x (Function frame)\<rparr>"
  by (simp add: string_or_def split: option.splits json.splits)

lemma assign_Module:
  "(case x of Some (JString s) \<Rightarrow> (frame::Frame)\<lparr>Module := s\<rparr> | _ \<Rightarrow> frame)
     = frame\<lparr>Module := string_or x (Module frame)\<rparr>"
  by (simp add: string_or_def split: option.splits json.splits)

lemma assign_LineNo:
  "(case x of Some (JNumber n) \<Rightarrow> (frame::Frame)\<lparr>LineNo := float64_to_int n\<rparr> | _ \<Rightarrow> frame)
     = frame\<lparr>LineNo := number_or x (LineNo frame)\<rparr>"
  by (simp add: number_or_def split: option.splits json.splits)

lemma assign_ColNo:
  "(case x of Some (JNumber n) \<Rightarrow> (frame::Frame)\<lparr>ColNo := float64_to_int n\<rparr> | _ \<Rightarrow> frame)
     = frame\<lparr>ColNo := number_or x (ColNo frame)\<rparr>"
  by (simp add: number_or_def split: option.splits json.splits)

lemma getBool_iff: "getBool fm key \<longleftrightarrow> map_of fm key = Some (JBool True)"
  by (simp add: getBool_def split: option.splits json.splits)

lemma extract_frame_eq:
  "extract_frame fm =
     \<lparr>Filename = string_field fm ''filename'', AbsPath = string_field fm ''absPath'',
      Module = string_field fm ''module'', Function = string_field fm ''function'',
      InApp = (map_of fm ''inApp'' = Some (JBool True)),
      LineNo = number_field fm ''lineNo'', ColNo = number_field fm ''colNo''\<rparr>"
  unfolding extract_frame_def assign_Filename assign_AbsPath assign_Function
    assign_Module assign_LineNo assign_ColNo
  by (simp add: Let_def getBool_iff string_field_def number_field_def)

lemma extract_frame_fields:
  "InApp (extract_frame fm) = (map_of fm ''inApp'' = Some (JBool True))"
  "Filename (extract_frame fm) = string_field fm ''filename''"
  "AbsPath (extract_frame fm) = string_field fm ''absPath''"
  "Function (extract_frame fm) = string_field fm ''function''"
  "Module (extract_frame fm) = string_field fm ''module''"
  "LineNo (extract_frame fm) = number_field fm ''lineNo''"
  "ColNo (extract_frame fm) = number_field fm ''colNo''"
  by (simp_all add: extract_frame_eq)

lemma field_missing:
  "map_of fm key = None \<Longrightarrow> string_field fm key = ''''"
  "map_of fm key = None \<Longrightarrow> number_field fm key = 0"
  by (simp_all add: string_field_def number_field_def string_or_def number_or_def)

text \<open>
  C6, as the specification states it for every envelope, fails: an envelope whose event
  carries three frames under an exception entry and that has no issue object yields no
  record, hence no frame.
\<close>

theorem ParseWebhook_frames_without_issue_counterexample:
  "ParseWebhook envelope_event_only = None
   \<and> length (payload_frames envelope_event_only) = 3"
  by (simp add: ParseWebhook_def payload_frames_def envelope_event_only_def test_event_def
      entry_frames_def value_frames_def)

text \<open>
  C6, amended. When the envelope has an issue object, \<^const>\<open>ParseWebhook\<close> returns a
  record with one frame for each frame of the payload, at the same position: its
  \<^verbatim>\<open>InApp\<close> is true exactly when the source frame's \<^verbatim>\<open>inApp\<close> is the boolean true,
  and every other field is the source frame's value of that key, or the zero value when
  the key is missing.
\<close>

theorem ParseWebhook_preserves_frames:
  assumes "Issue (SentryWebhook.Data wh) = Some issue"
  shows "\<exists>parsed. ParseWebhook wh = Some parsed
    \<and> length (Frames parsed) = length (payload_frames wh)
    \<and> (\<forall>i < length (payload_frames wh).
          InApp (Frames parsed ! i) = (map_of (payload_frames wh ! i) ''inApp'' = Some (JBool True))
        \<and> Filename (Frames parsed ! i) = string_field (payload_frames wh ! i) ''filename''
        \<and> AbsPath (Frames parsed ! i) = string_field (payload_frames wh ! i) ''absPath''
        \<and> Function (Frames parsed ! i) = string_field (payload_frames wh ! i) ''function''
        \<and> Module (Frames parsed ! i) = string_field (payload_frames wh ! i) ''module''
        \<and> LineNo (Frames parsed ! i) = number_field (payload_frames wh ! i) ''lineNo''
        \<and> ColNo (Frames parsed ! i) = number_field (payload_frames wh ! i) ''colNo'')
    \<and> (\<forall>fm key. map_of fm key = None \<longrightarrow> string_field fm key = '''' \<and> number_field fm key = 0)"
proof -
  from assms obtain parsed where p: "ParseWebhook wh = Some parsed"
    by (auto simp: ParseWebhook_def Let_def)
  then have "Frames parsed = map extract_frame (payload_frames wh)"
    by (rule ParseWebhook_Frames)
  with p show ?thesis
    by (simp add: extract_frame_fields field_missing)
qed

lemma payload_frames_envelope_created:
  "payload_frames envelope_created =
     [[(''filename'', JString ''lib/run.py''), (''inApp'', JBool False), (''lineNo'', JNumber 88)],
      [(''function'', JString ''handle''), (''inApp'', JBool True)],
      []]"
  by (simp add: payload_frames_def envelope_created_def test_event_def entry_frames_def
      value_frames_def)

theorem ParseWebhook_preserves_frames_witness:
  "Issue (SentryWebhook.Data envelope_created) = Some test_issue
   \<and> (\<exists>parsed. ParseWebhook envelope_created = Some parsed
        \<and> length (Frames parsed) = 3
        \<and> map InApp (Frames parsed) = [False, True, False]
        \<and> map Filename (Frames parsed) = [''lib/run.py'', '''', '''']
        \<and> map Function (Frames parsed) = ['''', ''handle'', '''']
        \<and> map LineNo (Frames parsed) = [88, 0, 0])"
proof -
  have h: "Issue (SentryWebhook.Data envelope_created) = Some test_issue"
    by (simp add: envelope_created_def)
  from ParseWebhook_preserves_frames [OF h] obtain parsed
    where p: "ParseWebhook envelope_created = Some parsed"
      and n: "length (Frames parsed) = length (payload_frames envelope_created)"
    by blast
  have "Frames (the (ParseWebhook envelope_created)) =
      [\<lparr>Filename = ''lib/run.py'', AbsPath = '''', Module = '''', Function = '''',
         InApp = False, LineNo = 88, ColNo = 0\<rparr>,
       \<lparr>Filename = '''', AbsPath = '''', Module = '''', Function = ''handle'',
         InApp = True, LineNo = 0, ColNo = 0\<rparr>,
       \<lparr>Filename = '''', AbsPath = '''', Module = '''', Function = '''',
         InApp = False, LineNo = 0, ColNo = 0\<rparr>]"
    by (simp add: ParseWebhook_def envelope_created_def test_issue_def test_event_def
        extract_frame_eq string_field_def number_field_def string_or_def number_or_def
        float64_to_int_def Let_def)
  with p n h show ?thesis
    by (simp add: payload_frames_envelope_created)
qed

text \<open>
  C3, as the specification states it, fails: an envelope whose issue object has an empty
  id and project slug yields a record, and the record's two fields are empty.
\<close>

theorem ParseWebhook_empty_identity_counterexample:
  "ParseWebhook envelope_with_empty_issue =
     Some \<lparr>IssueID = '''', ProjectSlug = '''', Title = '''', ErrorType = '''',
           ErrorMessage = '''', Level = '''', Platform = '''', Culprit = '''',
           Frames = [], Permalink = ''''\<rparr>"
  by (simp add: ParseWebhook_def envelope_with_empty_issue_def empty_issue_def)

text \<open>
  C3, amended. An envelope without an issue object yields no record; an envelope with one
  yields a record whose \<^verbatim>\<open>IssueID\<close> and \<^verbatim>\<open>ProjectSlug\<close> are the issue's id and its
  project's slug, copied as they are.
\<close>

theorem ParseWebhook_copies_issue_identity:
  "(Issue (SentryWebhook.Data wh) = None \<longrightarrow> ParseWebhook wh = None)
   \<and> (\<forall>issue. Issue (SentryWebhook.Data wh) = Some issue \<longrightarrow>
        (\<exists>parsed. ParseWebhook wh = Some parsed
           \<and> IssueID parsed = ID issue
           \<and> ProjectSlug parsed = Slug (Project issue)))"
  by (simp add: ParseWebhook_def Let_def split: option.splits)

theorem ParseWebhook_copies_issue_identity_witness:
  "ParseWebhook envelope_without_issue = None
   \<and> (\<exists>parsed. ParseWebhook envelope_created = Some parsed
         \<and> IssueID parsed = ''12345'' \<and> ProjectSlug parsed = ''test-project'')"
proof -
  have n: "Issue (SentryWebhook.Data envelope_without_issue) = None"
    by (simp add: envelope_without_issue_def)
  have s: "Issue (SentryWebhook.Data envelope_created) = Some test_issue"
    by (simp add: envelope_created_def)
  have i: "ID test_issue = ''12345''" "Slug (Project test_issue) = ''test-project''"
    by (simp_all add: test_issue_def empty_issue_def)
  from n s i
    ParseWebhook_copies_issue_identity [of envelope_without_issue]
    ParseWebhook_copies_issue_identity [of envelope_created]
  show ?thesis by auto
qed

section \<open>Properties of the webhook handler\<close>

lemma ServeHTTP_valid:
  assumes "Method r = ''POST''" "Body r = Inr body" "json_Unmarshal body = Inr webhook"
    "Action webhook = ''created'' \<or> Action webhook = ''triggered''"
    "ParseWebhook webhook = Some parsed"
  shows \<open>ServeHTTP json_Unmarshal r q =
     (Responded \<lparr>Code = 202, Written = ''{"status":"queued"}''\<rparr>,
      snd (select_send \<lparr>Webhook = webhook, ParsedError = parsed\<rparr> q))\<close>
proof -
  from assms(5) obtain issue where "Issue (SentryWebhook.Data webhook) = Some issue"
    by (auto simp: ParseWebhook_def split: option.splits)
  with assms show ?thesis
    by (auto simp: ServeHTTP_def StatusAccepted_def split: prod.splits)
qed

lemma ServeHTTP_enqueues_when_room:
  assumes "Method r = ''POST''" "Body r = Inr body" "json_Unmarshal body = Inr webhook"
    "Action webhook = ''created'' \<or> Action webhook = ''triggered''"
    "ParseWebhook webhook = Some parsed"
    "length (buffered q) < cap q"
  shows "buffered (snd (ServeHTTP json_Unmarshal r q))
           = buffered q @ [\<lparr>Webhook = webhook, ParsedError = parsed\<rparr>]"
  using assms(6)
  by (simp add: ServeHTTP_valid [where json_Unmarshal = json_Unmarshal, OF assms(1-5)]
      select_send_def)

text \<open>
  C4. A valid webhook (a POST whose body decodes to an envelope with action "created" or
  "triggered" and an issue) that meets a full queue is answered 202 with the body of a
  queued one, and the queue is left exactly as it was: what the dispatcher will receive
  does not include the new job. The response is the same whatever the queue holds.
\<close>

theorem ServeHTTP_full_queue_drops_job:
  assumes "Method r = ''POST''" "Body r = Inr body" "json_Unmarshal body = Inr webhook"
    "Action webhook = ''created'' \<or> Action webhook = ''triggered''"
    "Issue (SentryWebhook.Data webhook) = Some issue"
    "cap q \<le> length (buffered q)"
  shows \<open>ServeHTTP json_Unmarshal r q =
            (Responded \<lparr>Code = 202, Written = ''{"status":"queued"}''\<rparr>, q)
    \<and> (\<forall>q'. fst (ServeHTTP json_Unmarshal r q') =
            Responded \<lparr>Code = 202, Written = ''{"status":"queued"}''\<rparr>)
    \<and> receive (snd (ServeHTTP json_Unmarshal r q)) = receive q\<close>
proof -
  from assms(5) obtain parsed where p: "ParseWebhook webhook = Some parsed"
    by (auto simp: ParseWebhook_def Let_def)
  note valid = ServeHTTP_valid [where json_Unmarshal = json_Unmarshal, OF assms(1-4) p]
  from assms(6) have "select_send \<lparr>Webhook = webhook, ParsedError = parsed\<rparr> q = (False, q)"
    by (simp add: select_send_def)
  with valid show ?thesis by simp
qed

theorem ServeHTTP_full_queue_drops_job_witness:
  \<open>ServeHTTP fixture_decoder (post body_created) full_queue =
     (Responded \<lparr>Code = 202, Written = ''{"status":"queued"}''\<rparr>, full_queue)
   \<and> receive (snd (ServeHTTP fixture_decoder (post body_created) full_queue))
       = (Some queued_job, \<lparr>buffered = [], cap = 1\<rparr>)\<close>
proof -
  have d: "fixture_decoder body_created = Inr envelope_created"
    by (simp add: fixture_decoder_def body_created_def body_without_issue_def
        body_with_empty_issue_def bytes_of_def)
  have a: "Action envelope_created = ''created'' \<or> Action envelope_created = ''triggered''"
    and i: "Issue (SentryWebhook.Data envelope_created) = Some test_issue"
    by (simp_all add: envelope_created_def)
  have c: "cap full_queue \<le> length (buffered full_queue)"
    by (simp add: full_queue_def)
  have m: "Method (post body_created) = ''POST''" "Body (post body_created) = Inr body_created"
    by (simp_all add: post_def)
  have r: "receive full_queue = (Some queued_job, \<lparr>buffered = [], cap = 1\<rparr>)"
    by (simp add: receive_def full_queue_def)
  from ServeHTTP_full_queue_drops_job [where json_Unmarshal = fixture_decoder, OF m d a i c] r
  show ?thesis by simp
qed

lemma ServeHTTP_ignores_other_actions:
  assumes "Method r = ''POST''" "Body r = Inr body" "json_Unmarshal body = Inr webhook"
    "Action webhook \<noteq> ''created''" "Action webhook \<noteq> ''triggered''"
    "Issue (SentryWebhook.Data webhook) = Some issue"
  shows "ServeHTTP json_Unmarshal r q = (Responded \<lparr>Code = 202, Written = ''''\<rparr>, q)"
  using assms by (simp add: ServeHTTP_def StatusAccepted_def)

text \<open>
  C5 fails on the code for an envelope without an issue object: the log statement that
  follows decoding reads \<^verbatim>\<open>webhook.Data.Issue.ID\<close> before the action is looked at, so the
  handler panics instead of answering 202. No job is queued. (With an issue object
  present, the answer is 202 and the queue is unchanged: \<open>ServeHTTP_ignores_other_actions\<close>.)
\<close>

theorem ServeHTTP_ignored_action_without_issue_panics:
  "ServeHTTP fixture_decoder (post body_without_issue) q = (Panicked, q)"
  by (simp add: ServeHTTP_def post_def fixture_decoder_def envelope_without_issue_def)

section \<open>Properties of the remote repository protocol\<close>

subsection \<open>What each call does to the remote\<close>

lemma called_simps:
  "refs (called c r) = refs r"
  "commits (called c r) = commits r"
  "trees (called c r) = trees r"
  "pulls (called c r) = pulls r"
  "replies (called c r) = replies r"
  "calls (called c r) = calls r @ [c]"
  by (simp_all add: called_def)

lemma next_reply_called:
  "next_reply (called c r) = replies r (Suc (length (calls r)))"
  by (simp add: next_reply_def called_def)

lemma Git_GetRef_Inl:
  "Git_GetRef r ow rp ref = (Inl e, r') \<Longrightarrow> r' = called (GetRef ref) r"
  by (auto simp: Git_GetRef_def Let_def split: reply.splits option.splits)

lemma Git_GetRef_Inr:
  "Git_GetRef r ow rp ref = (Inr x, r') \<Longrightarrow>
     r' = called (GetRef ref) r
     \<and> (\<exists>sha. refs r ref = Some sha
            \<and> x = \<lparr>Ref = Some ref, Object = Some \<lparr>GitObject.SHA = Some sha\<rparr>\<rparr>)"
  by (auto simp: Git_GetRef_def Let_def split: reply.splits option.splits)

lemma Git_GetCommit_Inl:
  "Git_GetCommit r ow rp sha = (Inl e, r') \<Longrightarrow> r' = called (GetCommit sha) r"
  by (auto simp: Git_GetCommit_def Let_def split: reply.splits option.splits)

lemma Git_GetCommit_Inr:
  "Git_GetCommit r ow rp sha = (Inr c, r') \<Longrightarrow>
     r' = called (GetCommit sha) r
     \<and> (\<exists>co. commits r sha = Some co \<and> GetTree_GetSHA c = tree_of co)"
  by (auto simp: Git_GetCommit_def Let_def GetTree_GetSHA_def GetString_def
      split: reply.splits option.splits)

lemma Git_CreateTree_Inl:
  "Git_CreateTree r ow rp b es = (Inl e, r') \<Longrightarrow> r' = called (CreateTree b es) r"
  by (auto simp: Git_CreateTree_def Let_def split: reply.splits option.splits)

lemma Git_CreateTree_Inr:
  "Git_CreateTree r ow rp b es = (Inr t, r') \<Longrightarrow>
     \<exists>new base. base_tree r b = Some base \<and> t = \<lparr>Tree.SHA = Some new\<rparr>
       \<and> r' = (called (CreateTree b es) r)\<lparr>trees := (trees r)(new \<mapsto> fold put_entry es base)\<rparr>"
  by (auto simp: Git_CreateTree_def Let_def split: reply.splits option.splits)

lemma Git_CreateCommit_Inl:
  "Git_CreateCommit r ow rp c = (Inl e, r') \<Longrightarrow> r' = called (CreateCommit c) r"
  by (auto simp: Git_CreateCommit_def Let_def split: reply.splits if_splits)

lemma Git_CreateCommit_Inr:
  "Git_CreateCommit r ow rp c = (Inr c', r') \<Longrightarrow>
     \<exists>new. c' = c\<lparr>Commit.SHA := Some new\<rparr>
       \<and> r' = (called (CreateCommit c) r)\<lparr>commits := (commits r)(new \<mapsto>
                \<lparr>tree_of = GetTree_GetSHA c, parents_of = Commit.Parents c,
                 message_of = GetString (Commit.Message c)\<rparr>)\<rparr>"
  by (auto simp: Git_CreateCommit_def Let_def split: reply.splits if_splits)

lemma Git_UpdateRef_Inl:
  "Git_UpdateRef r ow rp ref force = (Inl e, r') \<Longrightarrow> r' = called (UpdateRef ref force) r"
  by (auto simp: Git_UpdateRef_def Let_def split: reply.splits if_splits)

lemma Git_UpdateRef_Inr:
  "Git_UpdateRef r ow rp ref force = (Inr x, r') \<Longrightarrow>
     r' = (called (UpdateRef ref force) r)
            \<lparr>refs := (refs r)(GetString (Reference.Ref ref) \<mapsto> GetObject_GetSHA ref)\<rparr>"
  by (auto simp: Git_UpdateRef_def Let_def split: reply.splits if_splits)

subsection \<open>The tree built from the file changes\<close>

lemma tree_entries_loop_eq:
  "tree_entries_loop files acc = acc @ map tree_entry_of files"
  by (induction files arbitrary: acc)
     (simp_all add: tree_entry_of_def committed_mode_def Let_def)

lemma fold_put_entry_other:
  "path \<notin> FileChange.Path ` set files \<Longrightarrow>
     fold put_entry (map tree_entry_of files) base path = base path"
  by (induction files arbitrary: base) (auto simp: put_entry_def tree_entry_of_def)

lemma fold_put_entry_changed:
  "path \<in> FileChange.Path ` set files \<Longrightarrow>
     \<exists>f \<in> set files. FileChange.Path f = path
       \<and> fold put_entry (map tree_entry_of files) base path
            = Some (committed_mode f, FileChange.Content f)"
proof (induction files arbitrary: base)
  case Nil
  then show ?case by simp
next
  case (Cons f fs)
  show ?case
  proof (cases "path \<in> FileChange.Path ` set fs")
    case True
    from Cons.IH [OF True, of "put_entry (tree_entry_of f) base"] show ?thesis by auto
  next
    case False
    with Cons.prems have p: "FileChange.Path f = path" by auto
    have v: "put_entry (tree_entry_of f) base path = Some (committed_mode f, FileChange.Content f)"
      using p by (simp add: put_entry_def tree_entry_of_def)
    have "fold put_entry (map tree_entry_of (f # fs)) base path
        = put_entry (tree_entry_of f) base path"
      using fold_put_entry_other [OF False, of "put_entry (tree_entry_of f) base"] by simp
    with v have "fold put_entry (map tree_entry_of (f # fs)) base path
        = Some (committed_mode f, FileChange.Content f)"
      by simp
    with p show ?thesis by (intro bexI [of _ f]) simp_all
  qed
qed

lemma protocol_prefixes:
  "[Some ResolveRef] = take (Suc 0) protocol"
  "[Some ResolveRef, Some ResolveCommit] = take (Suc 1) protocol"
  "[Some ResolveRef, Some ResolveCommit, Some BuildTree] = take (Suc 2) protocol"
  "[Some ResolveRef, Some ResolveCommit, Some BuildTree, Some MakeCommit] = take (Suc 3) protocol"
  "[Some ResolveRef, Some ResolveCommit, Some BuildTree, Some MakeCommit, Some AdvanceRef]
     = take (Suc 4) protocol"
  by (simp_all add: protocol_def)

lemma CommitFiles_outcomes:
  "case CommitFiles g r branch files message of
     (Ok sha, r') \<Rightarrow>
       (\<exists>parent pc base tsha t'.
          refs r (''refs/heads/'' @ branch) = Some parent
        \<and> commits r parent = Some pc
        \<and> base_tree r (tree_of pc) = Some base
        \<and> calls_since r r' =
            [GetRef (''refs/heads/'' @ branch),
             GetCommit parent,
             CreateTree (tree_of pc) (map tree_entry_of files),
             CreateCommit \<lparr>Commit.SHA = None, Tree = Some \<lparr>Tree.SHA = Some tsha\<rparr>,
                           Message = Some message, Parents = [parent]\<rparr>,
             UpdateRef \<lparr>Ref = Some (''refs/heads/'' @ branch),
                        Object = Some \<lparr>GitObject.SHA = Some sha\<rparr>\<rparr> False]
        \<and> trees r' tsha = Some t'
        \<and> (\<forall>path. path \<notin> FileChange.Path ` set files \<longrightarrow> t' path = base path)
        \<and> (\<forall>path \<in> FileChange.Path ` set files.
              \<exists>f \<in> set files. FileChange.Path f = path
                \<and> t' path = Some (committed_mode f, FileChange.Content f))
        \<and> commits r' sha = Some \<lparr>tree_of = tsha, parents_of = [parent], message_of = message\<rparr>
        \<and> refs r' = (refs r)(''refs/heads/'' @ branch \<mapsto> sha))
   | (Err e, r') \<Rightarrow>
       refs r' = refs r
       \<and> (\<exists>k < 5. map step_of (calls_since r r') = take (Suc k) protocol)
   | (Panic, r') \<Rightarrow> False"
proof -
  let ?name = "''refs/heads/'' @ branch"
  let ?c1 = "GetRef ?name"
  let ?entries = "map tree_entry_of files"
  have entries: "tree_entries_loop files [] = ?entries"
    by (simp add: tree_entries_loop_eq)
  obtain res1 r1 where s1: "Git_GetRef r (owner g) (repo g) ?name = (res1, r1)"
    by fastforce
  show ?thesis
  proof (cases res1)
    case (Inl e)
    with s1 have r1: "r1 = called ?c1 r" by (auto dest: Git_GetRef_Inl)
    have "CommitFiles g r branch files message = (Err (''failed to get branch ref: '' @ e), r1)"
      using s1 Inl by (simp add: CommitFiles_def)
    moreover have "refs r1 = refs r"
      by (simp add: r1 called_simps)
    moreover have "\<exists>k < 5. map step_of (calls_since r r1) = take (Suc k) protocol"
      by (intro exI [of _ "0"]) (simp add: r1 calls_since_def called_simps protocol_def)
    ultimately show ?thesis by simp
  next
    case (Inr ref)
    with s1 obtain parent where r1: "r1 = called ?c1 r"
      and parent: "refs r ?name = Some parent"
      and ref: "ref = \<lparr>Ref = Some ?name, Object = Some \<lparr>GitObject.SHA = Some parent\<rparr>\<rparr>"
      by (auto dest: Git_GetRef_Inr)
    have ref_sha: "GetObject_GetSHA ref = parent"
      by (simp add: ref GetObject_GetSHA_def GetString_def)
    let ?c2 = "GetCommit parent"
    obtain res2 r2 where s2: "Git_GetCommit r1 (owner g) (repo g) parent = (res2, r2)"
      by fastforce
    show ?thesis
    proof (cases res2)
      case (Inl e)
      with s2 have r2: "r2 = called ?c2 r1" by (auto dest: Git_GetCommit_Inl)
      have "CommitFiles g r branch files message
              = (Err (''failed to get parent commit: '' @ e), r2)"
        using s1 s2 Inl \<open>res1 = Inr ref\<close> by (simp add: CommitFiles_def ref_sha)
      moreover have "refs r2 = refs r"
        by (simp add: r1 r2 called_simps)
      moreover have "\<exists>k < 5. map step_of (calls_since r r2) = take (Suc k) protocol"
        by (intro exI [of _ "1"]) (simp add: r1 r2 calls_since_def called_simps protocol_def)
      ultimately show ?thesis by simp
    next
      case (Inr parentCommit)
      with s2 obtain pc where r2: "r2 = called ?c2 r1"
        and pc: "commits r parent = Some pc"
        and tree_sha: "GetTree_GetSHA parentCommit = tree_of pc"
        by (auto simp: r1 called_simps dest: Git_GetCommit_Inr)
      let ?c3 = "CreateTree (tree_of pc) ?entries"
      obtain res3 r3 where
        s3: "Git_CreateTree r2 (owner g) (repo g) (tree_of pc) ?entries = (res3, r3)"
        by fastforce
      show ?thesis
      proof (cases res3)
        case (Inl e)
        with s3 have r3: "r3 = called ?c3 r2" by (auto dest: Git_CreateTree_Inl)
        have "CommitFiles g r branch files message = (Err (''failed to create tree: '' @ e), r3)"
          using s1 s2 s3 Inl \<open>res1 = Inr ref\<close> \<open>res2 = Inr parentCommit\<close>
          by (simp add: CommitFiles_def ref_sha tree_sha entries)
        moreover have "refs r3 = refs r"
          by (simp add: r1 r2 r3 called_simps)
        moreover have "\<exists>k < 5. map step_of (calls_since r r3) = take (Suc k) protocol"
          by (intro exI [of _ "2"]) (simp add: r1 r2 r3 calls_since_def called_simps protocol_def)
        ultimately show ?thesis by simp
      next
        case (Inr newTree)
        with s3 have "\<exists>tsha base. base_tree r2 (tree_of pc) = Some base
            \<and> newTree = \<lparr>Tree.SHA = Some tsha\<rparr>
            \<and> r3 = (called ?c3 r2)\<lparr>trees := (trees r2)(tsha \<mapsto> fold put_entry ?entries base)\<rparr>"
          by (simp add: Git_CreateTree_Inr)
        then obtain tsha base where base2: "base_tree r2 (tree_of pc) = Some base"
          and newTree: "newTree = \<lparr>Tree.SHA = Some tsha\<rparr>"
          and r3: "r3 = (called ?c3 r2)\<lparr>trees := (trees r2)(tsha \<mapsto> fold put_entry ?entries base)\<rparr>"
          by blast
        have "base_tree r2 (tree_of pc) = base_tree r (tree_of pc)"
          by (simp add: base_tree_def r1 r2 called_simps)
        with base2 have base: "base_tree r (tree_of pc) = Some base" by simp
        let ?commit = "\<lparr>Commit.SHA = None, Tree = Some newTree, Message = Some message,
                        Parents = [parent]\<rparr>"
        let ?c4 = "CreateCommit ?commit"
        obtain res4 r4 where s4: "Git_CreateCommit r3 (owner g) (repo g) ?commit = (res4, r4)"
          by fastforce
        have r3_refs: "refs r3 = refs r" and r3_calls: "calls r3 = calls r @ [?c1, ?c2, ?c3]"
          and r3_commits: "commits r3 = commits r"
          by (simp_all add: r1 r2 r3 called_simps)
        show ?thesis
        proof (cases res4)
          case (Inl e)
          with s4 have r4: "r4 = called ?c4 r3" by (auto dest: Git_CreateCommit_Inl)
          have "CommitFiles g r branch files message
                  = (Err (''failed to create commit: '' @ e), r4)"
            using s1 s2 s3 s4 Inl \<open>res1 = Inr ref\<close> \<open>res2 = Inr parentCommit\<close>
              \<open>res3 = Inr newTree\<close>
            by (simp add: CommitFiles_def ref_sha tree_sha entries)
          moreover have "refs r4 = refs r"
            by (simp add: r4 r3_refs called_simps)
          moreover have "\<exists>k < 5. map step_of (calls_since r r4) = take (Suc k) protocol"
            by (intro exI [of _ "3"]) (simp add: r4 r3_calls calls_since_def called_simps protocol_def)
          ultimately show ?thesis by simp
        next
          case (Inr newCommit)
          with s4 obtain sha where newCommit: "newCommit = ?commit\<lparr>Commit.SHA := Some sha\<rparr>"
            and r4: "r4 = (called ?c4 r3)\<lparr>commits := (commits r3)(sha \<mapsto>
                       \<lparr>tree_of = tsha, parents_of = [parent], message_of = message\<rparr>)\<rparr>"
            by (auto simp: newTree GetTree_GetSHA_def GetString_def dest!: Git_CreateCommit_Inr)
          let ?ref' = "\<lparr>Ref = Some ?name, Object = Some \<lparr>GitObject.SHA = Some sha\<rparr>\<rparr>"
          let ?c5 = "UpdateRef ?ref' False"
          have ref': "ref\<lparr>Object := Some (\<lparr>GitObject.SHA = Some parent\<rparr>
                        \<lparr>GitObject.SHA := Commit.SHA newCommit\<rparr>)\<rparr> = ?ref'"
            by (simp add: ref newCommit)
          have ref'': "ref\<lparr>Object := Some \<lparr>GitObject.SHA = Some sha\<rparr>\<rparr> = ?ref'"
            by (simp add: ref)
          have ob: "Reference.Object ref = Some \<lparr>GitObject.SHA = Some parent\<rparr>"
            by (simp add: ref)
          obtain res5 r5 where s5: "Git_UpdateRef r4 (owner g) (repo g) ?ref' False = (res5, r5)"
            by fastforce
          have r4_refs: "refs r4 = refs r"
            and r4_calls: "calls r4 = calls r @ [?c1, ?c2, ?c3, ?c4]"
            and r4_trees: "trees r4 tsha = Some (fold put_entry ?entries base)"
            and r4_commits: "commits r4 sha =
                Some \<lparr>tree_of = tsha, parents_of = [parent], message_of = message\<rparr>"
            by (simp_all add: r4 r3 r2 r1 called_simps)
          have run: "CommitFiles g r branch files message =
             (case res5 of
                Inl err \<Rightarrow> (Err (''failed to update branch ref: '' @ err), r5)
              | Inr updated \<Rightarrow> (Ok sha, r5))"
            using s1 s2 s3 s4 s5 \<open>res1 = Inr ref\<close> \<open>res2 = Inr parentCommit\<close>
              \<open>res3 = Inr newTree\<close> \<open>res4 = Inr newCommit\<close>
            by (simp add: CommitFiles_def ref_sha tree_sha entries ob ref' ref'' GetString_def
                newCommit split: sum.splits)
          show ?thesis
          proof (cases res5)
            case (Inl e)
            with s5 have r5: "r5 = called ?c5 r4" by (auto dest: Git_UpdateRef_Inl)
            have "refs r5 = refs r"
              by (simp add: r5 r4_refs called_simps)
            moreover have "\<exists>k < 5. map step_of (calls_since r r5) = take (Suc k) protocol"
              by (intro exI [of _ "4"]) (simp add: r5 r4_calls calls_since_def called_simps protocol_def)
            ultimately show ?thesis using run Inl by simp
          next
            case (Inr updated)
            with s5 have r5: "r5 = (called ?c5 r4)\<lparr>refs := (refs r4)(?name \<mapsto> sha)\<rparr>"
              by (auto simp: GetObject_GetSHA_def GetString_def dest!: Git_UpdateRef_Inr)
            have "calls_since r r5 = [?c1, ?c2, ?c3, ?c4, ?c5]"
              by (simp add: r5 r4_calls calls_since_def called_simps)
            moreover have "trees r5 tsha = Some (fold put_entry ?entries base)"
              by (simp add: r5 r4_trees called_simps)
            moreover have "commits r5 sha =
                Some \<lparr>tree_of = tsha, parents_of = [parent], message_of = message\<rparr>"
              by (simp add: r5 r4_commits called_simps)
            moreover have "refs r5 = (refs r)(?name \<mapsto> sha)"
              by (simp add: r5 r4_refs)
            moreover have "\<forall>path. path \<notin> FileChange.Path ` set files \<longrightarrow>
                fold put_entry ?entries base path = base path"
              by (simp add: fold_put_entry_other)
            moreover have "\<forall>path \<in> FileChange.Path ` set files.
                \<exists>f \<in> set files. FileChange.Path f = path
                  \<and> fold put_entry ?entries base path
                       = Some (committed_mode f, FileChange.Content f)"
              using fold_put_entry_changed by blast
            ultimately show ?thesis
              using run Inr parent pc base newTree by simp
          qed
        qed
      qed
    qed
  qed
qed

subsection \<open>The outcome of the commit protocol, from what the remote answers\<close>

lemma base_tree_calls_update [simp]:
  "base_tree (r\<lparr>calls := cs\<rparr>) s = base_tree r s"
  by (simp add: base_tree_def)

lemma TrimPrefix_refs_heads:
  "TrimPrefix (''refs/heads/'' @ branch) ''refs/'' = ''heads/'' @ branch"
  by (simp add: TrimPrefix_def)

lemma CommitFiles_GetRef_fails:
  assumes "replies r (length (calls r)) = Fail e
     \<or> (\<exists>a. replies r (length (calls r)) = Done a)
        \<and> refs r (''refs/heads/'' @ branch) = None
        \<and> e = api_error ''GET'' (owner g) (repo g) (''git/ref/heads/'' @ branch)
                 ''404 Not Found''"
  shows "fst (CommitFiles g r branch files message) = Err (''failed to get branch ref: '' @ e)
    \<and> calls_since r (snd (CommitFiles g r branch files message))
         = [GetRef (''refs/heads/'' @ branch)]
    \<and> refs (snd (CommitFiles g r branch files message)) = refs r"
  using assms
  by (auto simp: CommitFiles_def Git_GetRef_def next_reply_def called_def Let_def
      calls_since_def TrimPrefix_def)

lemma CommitFiles_GetCommit_fails:
  assumes "refs r (''refs/heads/'' @ branch) = Some parent"
    and "replies r (length (calls r)) = Done a"
    and "replies r (Suc (length (calls r))) = Fail e
     \<or> (\<exists>b. replies r (Suc (length (calls r))) = Done b)
        \<and> commits r parent = None
        \<and> e = api_error ''GET'' (owner g) (repo g) (''git/commits/'' @ parent)
                 ''404 Not Found''"
  shows "fst (CommitFiles g r branch files message)
           = Err (''failed to get parent commit: '' @ e)
    \<and> calls_since r (snd (CommitFiles g r branch files message))
         = [GetRef (''refs/heads/'' @ branch), GetCommit parent]
    \<and> refs (snd (CommitFiles g r branch files message)) = refs r"
  using assms
  by (auto simp: CommitFiles_def Git_GetRef_def Git_GetCommit_def next_reply_def called_def
      Let_def calls_since_def GetObject_GetSHA_def GetString_def)

lemma CommitFiles_CreateTree_fails:
  assumes "refs r (''refs/heads/'' @ branch) = Some parent"
    and "replies r (length (calls r)) = Done a"
    and "commits r parent = Some pc"
    and "replies r (Suc (length (calls r))) = Done b"
    and "replies r (Suc (Suc (length (calls r)))) = Fail e
     \<or> (\<exists>t. replies r (Suc (Suc (length (calls r)))) = Done t)
        \<and> base_tree r (tree_of pc) = None
        \<and> e = api_error ''POST'' (owner g) (repo g) ''git/trees''
                 ''422 base_tree is not a valid tree oid''"
  shows "fst (CommitFiles g r branch files message) = Err (''failed to create tree: '' @ e)
    \<and> calls_since r (snd (CommitFiles g r branch files message))
         = [GetRef (''refs/heads/'' @ branch), GetCommit parent,
            CreateTree (tree_of pc) (map tree_entry_of files)]
    \<and> refs (snd (CommitFiles g r branch files message)) = refs r"
  using assms
  by (auto simp: CommitFiles_def Git_GetRef_def Git_GetCommit_def Git_CreateTree_def
      next_reply_def called_def Let_def calls_since_def GetObject_GetSHA_def
      GetTree_GetSHA_def GetString_def tree_entries_loop_eq)

lemma CommitFiles_CreateCommit_fails:
  assumes "refs r (''refs/heads/'' @ branch) = Some parent"
    and "replies r (length (calls r)) = Done a"
    and "commits r parent = Some pc"
    and "replies r (Suc (length (calls r))) = Done b"
    and "base_tree r (tree_of pc) = Some base"
    and "replies r (Suc (Suc (length (calls r)))) = Done tsha"
    and "replies r (Suc (Suc (Suc (length (calls r))))) = Fail e"
  shows "fst (CommitFiles g r branch files message) = Err (''failed to create commit: '' @ e)
    \<and> calls_since r (snd (CommitFiles g r branch files message))
         = [GetRef (''refs/heads/'' @ branch), GetCommit parent,
            CreateTree (tree_of pc) (map tree_entry_of files),
            CreateCommit \<lparr>Commit.SHA = None, Tree = Some \<lparr>Tree.SHA = Some tsha\<rparr>,
                          Message = Some message, Parents = [parent]\<rparr>]
    \<and> refs (snd (CommitFiles g r branch files message)) = refs r"
  using assms
  by (simp add: CommitFiles_def Git_GetRef_def Git_GetCommit_def Git_CreateTree_def
      Git_CreateCommit_def next_reply_def called_def Let_def calls_since_def
      GetObject_GetSHA_def GetTree_GetSHA_def GetString_def tree_entries_loop_eq)

lemma CommitFiles_UpdateRef_fails:
  assumes "refs r (''refs/heads/'' @ branch) = Some parent"
    and "replies r (length (calls r)) = Done a"
    and "commits r parent = Some pc"
    and "replies r (Suc (length (calls r))) = Done b"
    and "base_tree r (tree_of pc) = Some base"
    and "replies r (Suc (Suc (length (calls r)))) = Done tsha"
    and "replies r (Suc (Suc (Suc (length (calls r))))) = Done sha"
    and "replies r (Suc (Suc (Suc (Suc (length (calls r)))))) = Fail e"
  shows "fst (CommitFiles g r branch files message)
           = Err (''failed to update branch ref: '' @ e)
    \<and> calls_since r (snd (CommitFiles g r branch files message))
         = [GetRef (''refs/heads/'' @ branch), GetCommit parent,
            CreateTree (tree_of pc) (map tree_entry_of files),
            CreateCommit \<lparr>Commit.SHA = None, Tree = Some \<lparr>Tree.SHA = Some tsha\<rparr>,
                          Message = Some message, Parents = [parent]\<rparr>,
            UpdateRef \<lparr>Ref = Some (''refs/heads/'' @ branch),
                       Object = Some \<lparr>GitObject.SHA = Some sha\<rparr>\<rparr> False]
    \<and> refs (snd (CommitFiles g r branch files message)) = refs r"
  using assms
  by (simp add: CommitFiles_def Git_GetRef_def Git_GetCommit_def Git_CreateTree_def
      Git_CreateCommit_def Git_UpdateRef_def next_reply_def called_def Let_def
      calls_since_def GetObject_GetSHA_def GetTree_GetSHA_def GetString_def
      tree_entries_loop_eq)

lemma CommitFiles_succeeds:
  assumes "refs r (''refs/heads/'' @ branch) = Some parent"
    and "replies r (length (calls r)) = Done a"
    and "commits r parent = Some pc"
    and "replies r (Suc (length (calls r))) = Done b"
    and "base_tree r (tree_of pc) = Some base"
    and "replies r (Suc (Suc (length (calls r)))) = Done tsha"
    and "replies r (Suc (Suc (Suc (length (calls r))))) = Done sha"
    and "replies r (Suc (Suc (Suc (Suc (length (calls r)))))) = Done u"
  shows "fst (CommitFiles g r branch files message) = Ok sha
    \<and> calls_since r (snd (CommitFiles g r branch files message))
         = [GetRef (''refs/heads/'' @ branch), GetCommit parent,
            CreateTree (tree_of pc) (map tree_entry_of files),
            CreateCommit \<lparr>Commit.SHA = None, Tree = Some \<lparr>Tree.SHA = Some tsha\<rparr>,
                          Message = Some message, Parents = [parent]\<rparr>,
            UpdateRef \<lparr>Ref = Some (''refs/heads/'' @ branch),
                       Object = Some \<lparr>GitObject.SHA = Some sha\<rparr>\<rparr> False]
    \<and> refs (snd (CommitFiles g r branch files message))
         = (refs r)(''refs/heads/'' @ branch \<mapsto> sha)
    \<and> commits (snd (CommitFiles g r branch files message))
         = (commits r)(sha \<mapsto> \<lparr>tree_of = tsha, parents_of = [parent], message_of = message\<rparr>)
    \<and> trees (snd (CommitFiles g r branch files message))
         = (trees r)(tsha \<mapsto> fold put_entry (map tree_entry_of files) base)"
  using assms
  by (simp add: CommitFiles_def Git_GetRef_def Git_GetCommit_def Git_CreateTree_def
      Git_CreateCommit_def Git_UpdateRef_def next_reply_def called_def Let_def
      calls_since_def GetObject_GetSHA_def GetTree_GetSHA_def GetString_def
      tree_entries_loop_eq)

text \<open>
  C2. What \<^const>\<open>CommitFiles\<close> does is fixed by what the remote answers to its calls,
  counted from the first one.

  When the branch reference exists, its commit exists, that commit's tree exists and all
  five calls are answered, the result is the SHA the remote gave the new commit. The
  calls made are, in this order: get the branch reference, get the commit it points at,
  create a tree from that commit's tree and one entry for each file change, create a
  commit with the new tree and the branch's commit as only parent, update the branch
  reference (not forced). Afterwards the new tree is the base tree with the entries put
  over it (each changed path holds the mode and content of a change to it, every other
  path holds what the base tree holds), the new commit is stored with that tree and that
  single parent, and the branch reference points at the new commit.

  When the first, second, third, fourth or fifth call fails (the remote's script says
  so, or the object asked for does not exist), the result is an error that names the
  step and carries the remote's message, the failed call is the last call made, and the
  references are what they were. \<^const>\<open>CommitFiles\<close> never panics with this remote.
\<close>

theorem CommitFiles_protocol:
  "(case CommitFiles g r branch files message of
     (Ok sha, r') \<Rightarrow>
       (\<exists>parent pc base tsha t'.
          refs r (''refs/heads/'' @ branch) = Some parent
        \<and> commits r parent = Some pc
        \<and> base_tree r (tree_of pc) = Some base
        \<and> calls_since r r' =
            [GetRef (''refs/heads/'' @ branch),
             GetCommit parent,
             CreateTree (tree_of pc) (map tree_entry_of files),
             CreateCommit \<lparr>Commit.SHA = None, Tree = Some \<lparr>Tree.SHA = Some tsha\<rparr>,
                           Message = Some message, Parents = [parent]\<rparr>,
             UpdateRef \<lparr>Ref = Some (''refs/heads/'' @ branch),
                        Object = Some \<lparr>GitObject.SHA = Some sha\<rparr>\<rparr> False]
        \<and> trees r' tsha = Some t'
        \<and> (\<forall>path. path \<notin> FileChange.Path ` set files \<longrightarrow> t' path = base path)
        \<and> (\<forall>path \<in> FileChange.Path ` set files.
              \<exists>f \<in> set files. FileChange.Path f = path
                \<and> t' path = Some (committed_mode f, FileChange.Content f))
        \<and> commits r' sha = Some \<lparr>tree_of = tsha, parents_of = [parent], message_of = message\<rparr>
        \<and> refs r' = (refs r)(''refs/heads/'' @ branch \<mapsto> sha))
   | (Err e, r') \<Rightarrow>
       refs r' = refs r
       \<and> (\<exists>k < 5. map step_of (calls_since r r') = take (Suc k) protocol)
   | (Panic, r') \<Rightarrow> False)
  \<and> (\<forall>parent a pc b base tsha sha u.
        refs r (''refs/heads/'' @ branch) = Some parent
      \<and> replies r (length (calls r)) = Done a
      \<and> commits r parent = Some pc
      \<and> replies r (Suc (length (calls r))) = Done b
      \<and> base_tree r (tree_of pc) = Some base
      \<and> replies r (Suc (Suc (length (calls r)))) = Done tsha
      \<and> replies r (Suc (Suc (Suc (length (calls r))))) = Done sha
      \<and> replies r (Suc (Suc (Suc (Suc (length (calls r)))))) = Done u \<longrightarrow>
        fst (CommitFiles g r branch files message) = Ok sha
      \<and> calls_since r (snd (CommitFiles g r branch files message))
           = [GetRef (''refs/heads/'' @ branch), GetCommit parent,
              CreateTree (tree_of pc) (map tree_entry_of files),
              CreateCommit \<lparr>Commit.SHA = None, Tree = Some \<lparr>Tree.SHA = Some tsha\<rparr>,
                            Message = Some message, Parents = [parent]\<rparr>,
              UpdateRef \<lparr>Ref = Some (''refs/heads/'' @ branch),
                         Object = Some \<lparr>GitObject.SHA = Some sha\<rparr>\<rparr> False]
      \<and> refs (snd (CommitFiles g r branch files message))
           = (refs r)(''refs/heads/'' @ branch \<mapsto> sha)
      \<and> commits (snd (CommitFiles g r branch files message))
           = (commits r)(sha \<mapsto> \<lparr>tree_of = tsha, parents_of = [parent], message_of = message\<rparr>)
      \<and> trees (snd (CommitFiles g r branch files message))
           = (trees r)(tsha \<mapsto> fold put_entry (map tree_entry_of files) base))
  \<and> (\<forall>e.
        (replies r (length (calls r)) = Fail e
         \<or> (\<exists>a. replies r (length (calls r)) = Done a)
            \<and> refs r (''refs/heads/'' @ branch) = None
            \<and> e = api_error ''GET'' (owner g) (repo g) (''git/ref/heads/'' @ branch)
                     ''404 Not Found'') \<longrightarrow>
        fst (CommitFiles g r branch files message) = Err (''failed to get branch ref: '' @ e)
      \<and> calls_since r (snd (CommitFiles g r branch files message))
           = [GetRef (''refs/heads/'' @ branch)]
      \<and> refs (snd (CommitFiles g r branch files message)) = refs r)
  \<and> (\<forall>parent a e.
        refs r (''refs/heads/'' @ branch) = Some parent
      \<and> replies r (length (calls r)) = Done a
      \<and> (replies r (Suc (length (calls r))) = Fail e
         \<or> (\<exists>b. replies r (Suc (length (calls r))) = Done b)
            \<and> commits r parent = None
            \<and> e = api_error ''GET'' (owner g) (repo g) (''git/commits/'' @ parent)
                     ''404 Not Found'') \<longrightarrow>
        fst (CommitFiles g r branch files message)
           = Err (''failed to get parent commit: '' @ e)
      \<and> calls_since r (snd (CommitFiles g r branch files message))
           = [GetRef (''refs/heads/'' @ branch), GetCommit parent]
      \<and> refs (snd (CommitFiles g r branch files message)) = refs r)
  \<and> (\<forall>parent a pc b e.
        refs r (''refs/heads/'' @ branch) = Some parent
      \<and> replies r (length (calls r)) = Done a
      \<and> commits r parent = Some pc
      \<and> replies r (Suc (length (calls r))) = Done b
      \<and> (replies r (Suc (Suc (length (calls r)))) = Fail e
         \<or> (\<exists>t. replies r (Suc (Suc (length (calls r)))) = Done t)
            \<and> base_tree r (tree_of pc) = None
            \<and> e = api_error ''POST'' (owner g) (repo g) ''git/trees''
                     ''422 base_tree is not a valid tree oid'') \<longrightarrow>
        fst (CommitFiles g r branch files message) = Err (''failed to create tree: '' @ e)
      \<and> calls_since r (snd (CommitFiles g r branch files message))
           = [GetRef (''refs/heads/'' @ branch), GetCommit parent,
              CreateTree (tree_of pc) (map tree_entry_of files)]
      \<and> refs (snd (CommitFiles g r branch files message)) = refs r)
  \<and> (\<forall>parent a pc b base tsha e.
        refs r (''refs/heads/'' @ branch) = Some parent
      \<and> replies r (length (calls r)) = Done a
      \<and> commits r parent = Some pc
      \<and> replies r (Suc (length (calls r))) = Done b
      \<and> base_tree r (tree_of pc) = Some base
      \<and> replies r (Suc (Suc (length (calls r)))) = Done tsha
      \<and> replies r (Suc (Suc (Suc (length (calls r))))) = Fail e \<longrightarrow>
        fst (CommitFiles g r branch files message) = Err (''failed to create commit: '' @ e)
      \<and> calls_since r (snd (CommitFiles g r branch files message))
           = [GetRef (''refs/heads/'' @ branch), GetCommit parent,
              CreateTree (tree_of pc) (map tree_entry_of files),
              CreateCommit \<lparr>Commit.SHA = None, Tree = Some \<lparr>Tree.SHA = Some tsha\<rparr>,
                            Message = Some message, Parents = [parent]\<rparr>]
      \<and> refs (snd (CommitFiles g r branch files message)) = refs r)
  \<and> (\<forall>parent a pc b base tsha sha e.
        refs r (''refs/heads/'' @ branch) = Some parent
      \<and> replies r (length (calls r)) = Done a
      \<and> commits r parent = Some pc
      \<and> replies r (Suc (length (calls r))) = Done b
      \<and> base_tree r (tree_of pc) = Some base
      \<and> replies r (Suc (Suc (length (calls r)))) = Done tsha
      \<and> replies r (Suc (Suc (Suc (length (calls r))))) = Done sha
      \<and> replies r (Suc (Suc (Suc (Suc (length (calls r)))))) = Fail e \<longrightarrow>
        fst (CommitFiles g r branch files message)
           = Err (''failed to update branch ref: '' @ e)
      \<and> calls_since r (snd (CommitFiles g r branch files message))
           = [GetRef (''refs/heads/'' @ branch), GetCommit parent,
              CreateTree (tree_of pc) (map tree_entry_of files),
              CreateCommit \<lparr>Commit.SHA = None, Tree = Some \<lparr>Tree.SHA = Some tsha\<rparr>,
                            Message = Some message, Parents = [parent]\<rparr>,
              UpdateRef \<lparr>Ref = Some (''refs/heads/'' @ branch),
                         Object = Some \<lparr>GitObject.SHA = Some sha\<rparr>\<rparr> False]
      \<and> refs (snd (CommitFiles g r branch files message)) = refs r)"
proof (intro conjI)
  show "case CommitFiles g r branch files message of
     (Ok sha, r') \<Rightarrow>
       (\<exists>parent pc base tsha t'.
          refs r (''refs/heads/'' @ branch) = Some parent
        \<and> commits r parent = Some pc
        \<and> base_tree r (tree_of pc) = Some base
        \<and> calls_since r r' =
            [GetRef (''refs/heads/'' @ branch),
             GetCommit parent,
             CreateTree (tree_of pc) (map tree_entry_of files),
             CreateCommit \<lparr>Commit.SHA = None, Tree = Some \<lparr>Tree.SHA = Some tsha\<rparr>,
                           Message = Some message, Parents = [parent]\<rparr>,
             UpdateRef \<lparr>Ref = Some (''refs/heads/'' @ branch),
                        Object = Some \<lparr>GitObject.SHA = Some sha\<rparr>\<rparr> False]
        \<and> trees r' tsha = Some t'
        \<and> (\<forall>path. path \<notin> FileChange.Path ` set files \<longrightarrow> t' path = base path)
        \<and> (\<forall>path \<in> FileChange.Path ` set files.
              \<exists>f \<in> set files. FileChange.Path f = path
                \<and> t' path = Some (committed_mode f, FileChange.Content f))
        \<and> commits r' sha = Some \<lparr>tree_of = tsha, parents_of = [parent], message_of = message\<rparr>
        \<and> refs r' = (refs r)(''refs/heads/'' @ branch \<mapsto> sha))
   | (Err e, r') \<Rightarrow>
       refs r' = refs r
       \<and> (\<exists>k < 5. map step_of (calls_since r r') = take (Suc k) protocol)
   | (Panic, r') \<Rightarrow> False"
    by (rule CommitFiles_outcomes)
qed (intro allI impI, (elim conjE)?,
     (rule CommitFiles_succeeds CommitFiles_GetRef_fails CommitFiles_GetCommit_fails
        CommitFiles_CreateTree_fails CommitFiles_CreateCommit_fails
        CommitFiles_UpdateRef_fails; assumption))+

theorem CommitFiles_protocol_witness:
  "fst (CommitFiles sample_provider
          (sample_remote [Done '''', Done '''', Done ''t1'', Done ''c1'', Done ''''])
          ''fix'' [sample_change] ''Fix crash'') = Ok ''c1''
   \<and> refs (snd (CommitFiles sample_provider
          (sample_remote [Done '''', Done '''', Done ''t1'', Done ''c1'', Done ''''])
          ''fix'' [sample_change] ''Fix crash'')) ''refs/heads/fix'' = Some ''c1''
   \<and> (\<exists>t'. trees (snd (CommitFiles sample_provider
          (sample_remote [Done '''', Done '''', Done ''t1'', Done ''c1'', Done ''''])
          ''fix'' [sample_change] ''Fix crash'')) ''t1'' = Some t'
         \<and> t' ''README.md'' = Some (''100644'', ''hello'')
         \<and> t' ''main.go'' = Some (''100644'', ''new''))
   \<and> fst (CommitFiles sample_provider (sample_remote [Done '''', Done ''''])
          ''fix'' [sample_change] ''Fix crash'')
        = Err ''failed to create tree: connection refused''
   \<and> calls_since (sample_remote [Done '''', Done ''''])
        (snd (CommitFiles sample_provider (sample_remote [Done '''', Done ''''])
          ''fix'' [sample_change] ''Fix crash''))
        = [GetRef ''refs/heads/fix'', GetCommit ''c0'',
           CreateTree ''t0'' [\<lparr>TreeEntry.Path = ''main.go'', TreeEntry.Mode = ''100644'',
                                TreeEntry.Type = ''blob'', TreeEntry.Content = ''new''\<rparr>]]
   \<and> refs (snd (CommitFiles sample_provider (sample_remote [Done '''', Done ''''])
          ''fix'' [sample_change] ''Fix crash'')) ''refs/heads/fix'' = Some ''c0''"
proof -
  let ?r = "sample_remote [Done '''', Done '''', Done ''t1'', Done ''c1'', Done '''']"
  let ?run = "CommitFiles sample_provider ?r ''fix'' [sample_change] ''Fix crash''"
  let ?q = "sample_remote [Done '''', Done '''']"
  let ?bad = "CommitFiles sample_provider ?q ''fix'' [sample_change] ''Fix crash''"
  let ?pc = "\<lparr>tree_of = ''t0'', parents_of = [], message_of = ''init''\<rparr>"
  note all_answered =
    CommitFiles_protocol [where g = sample_provider and r = ?r and branch = "''fix''"
      and files = "[sample_change]" and message = "''Fix crash''",
      THEN conjunct2, THEN conjunct1, rule_format]
  note tree_fails =
    CommitFiles_protocol [where g = sample_provider and r = ?q and branch = "''fix''"
      and files = "[sample_change]" and message = "''Fix crash''",
      THEN conjunct2, THEN conjunct2, THEN conjunct2, THEN conjunct2, THEN conjunct1,
      rule_format]
  have answered: "refs ?r (''refs/heads/'' @ ''fix'') = Some ''c0''
      \<and> replies ?r (length (calls ?r)) = Done ''''
      \<and> commits ?r ''c0'' = Some ?pc
      \<and> replies ?r (Suc (length (calls ?r))) = Done ''''
      \<and> base_tree ?r (tree_of ?pc) = Some sample_tree
      \<and> replies ?r (Suc (Suc (length (calls ?r)))) = Done ''t1''
      \<and> replies ?r (Suc (Suc (Suc (length (calls ?r))))) = Done ''c1''
      \<and> replies ?r (Suc (Suc (Suc (Suc (length (calls ?r)))))) = Done ''''"
    by (simp add: sample_remote_def script_of_def base_tree_def)
  have refused: "refs ?q (''refs/heads/'' @ ''fix'') = Some ''c0''
      \<and> replies ?q (length (calls ?q)) = Done ''''
      \<and> commits ?q ''c0'' = Some ?pc
      \<and> replies ?q (Suc (length (calls ?q))) = Done ''''
      \<and> (replies ?q (Suc (Suc (length (calls ?q)))) = Fail ''connection refused''
         \<or> (\<exists>t. replies ?q (Suc (Suc (length (calls ?q)))) = Done t)
            \<and> base_tree ?q (tree_of ?pc) = None
            \<and> ''connection refused'' = api_error ''POST'' (owner sample_provider)
                 (repo sample_provider) ''git/trees'' ''422 base_tree is not a valid tree oid'')"
    by (simp add: sample_remote_def script_of_def)
  from all_answered [OF answered]
  have ok: "fst ?run = Ok ''c1''"
    and head: "refs (snd ?run) = (refs ?r)(''refs/heads/'' @ ''fix'' \<mapsto> ''c1'')"
    and tree: "trees (snd ?run)
        = (trees ?r)(''t1'' \<mapsto> fold put_entry (map tree_entry_of [sample_change]) sample_tree)"
    by simp_all
  from tree_fails [OF refused]
  have err: "fst ?bad = Err (''failed to create tree: '' @ ''connection refused'')"
    and made: "calls_since ?q (snd ?bad)
        = [GetRef (''refs/heads/'' @ ''fix''), GetCommit ''c0'',
           CreateTree (tree_of ?pc) (map tree_entry_of [sample_change])]"
    and kept: "refs (snd ?bad) = refs ?q"
    by simp_all
  have "fold put_entry (map tree_entry_of [sample_change]) sample_tree ''README.md''
      = Some (''100644'', ''hello'')"
    and "fold put_entry (map tree_entry_of [sample_change]) sample_tree ''main.go''
      = Some (''100644'', ''new'')"
    by (simp_all add: put_entry_def tree_entry_of_def sample_change_def committed_mode_def
        sample_tree_def)
  with tree have "\<exists>t'. trees (snd ?run) ''t1'' = Some t'
      \<and> t' ''README.md'' = Some (''100644'', ''hello'')
      \<and> t' ''main.go'' = Some (''100644'', ''new'')"
    by simp
  moreover from head have "refs (snd ?run) ''refs/heads/fix'' = Some ''c1''" by simp
  moreover from kept have "refs (snd ?bad) ''refs/heads/fix'' = Some ''c0''"
    by (simp add: sample_remote_def)
  moreover from made have "calls_since ?q (snd ?bad)
        = [GetRef ''refs/heads/fix'', GetCommit ''c0'',
           CreateTree ''t0'' [\<lparr>TreeEntry.Path = ''main.go'', TreeEntry.Mode = ''100644'',
                                TreeEntry.Type = ''blob'', TreeEntry.Content = ''new''\<rparr>]]"
    by (simp add: tree_entry_of_def sample_change_def committed_mode_def)
  ultimately show ?thesis using ok err by simp
qed

subsection \<open>Creating a branch\<close>

lemma sublist_already_exists:
  "sublist ''Reference already exists''
     (api_error method ow rp path ''422 Reference already exists'')"
proof -
  have "api_error method ow rp path ''422 Reference already exists''
      = (method @ '' https://api.github.com/repos/'' @ ow @ ''/'' @ rp @ ''/'' @ path @ '': 422 '')
        @ ''Reference already exists'' @ '' []''"
    by (simp add: api_error_def)
  then show ?thesis unfolding sublist_def by blast
qed

lemma Git_CreateRef_existing:
  assumes "refs r (GetString (Reference.Ref ref)) = Some sha" "next_reply r = Done ident"
  shows "Git_CreateRef r ow rp ref =
     (Inl (api_error ''POST'' ow rp ''git/refs'' ''422 Reference already exists''),
      called (CreateRef ref) r)"
  using assms by (simp add: Git_CreateRef_def Let_def)

lemma CreateBranch_existing:
  assumes "refs r (''refs/heads/'' @ name) = Some sha" "next_reply r = Done ident"
  shows "CreateBranch g r name baseSHA =
     (None, called (CreateRef \<lparr>Ref = Some (''refs/heads/'' @ name),
                               Object = Some \<lparr>GitObject.SHA = Some baseSHA\<rparr>\<rparr>) r)"
proof -
  let ?ref = "\<lparr>Ref = Some (''refs/heads/'' @ name), Object = Some \<lparr>GitObject.SHA = Some baseSHA\<rparr>\<rparr>"
  have "refs r (GetString (Reference.Ref ?ref)) = Some sha"
    using assms(1) by (simp add: GetString_def)
  from Git_CreateRef_existing [OF this assms(2)] show ?thesis
    by (simp add: CreateBranch_def Let_def sublist_already_exists)
qed

lemma CreateBranch_calls:
  "calls (snd (CreateBranch g r name baseSHA)) =
     calls r @ [CreateRef \<lparr>Ref = Some (''refs/heads/'' @ name),
                           Object = Some \<lparr>GitObject.SHA = Some baseSHA\<rparr>\<rparr>]"
  "replies (snd (CreateBranch g r name baseSHA)) = replies r"
  by (auto simp: CreateBranch_def Git_CreateRef_def Let_def called_def
      split: reply.splits if_splits)

lemma CreateBranch_unchanged_or_created:
  assumes "next_reply r = Done ident"
  shows "refs (snd (CreateBranch g r name baseSHA)) (''refs/heads/'' @ name) \<noteq> None
     \<or> (snd (CreateBranch g r name baseSHA) =
           called (CreateRef \<lparr>Ref = Some (''refs/heads/'' @ name),
                               Object = Some \<lparr>GitObject.SHA = Some baseSHA\<rparr>\<rparr>) r
         \<and> refs r (''refs/heads/'' @ name) = None
         \<and> commits r baseSHA = None)"
  using assms
  by (auto simp: CreateBranch_def Git_CreateRef_def Let_def called_def GetString_def
      GetObject_GetSHA_def)

text \<open>
  C8. When the reference exists and the remote answers the call, the remote reports
  "Reference already exists" and \<^const>\<open>CreateBranch\<close> returns no error, leaving the
  references as they are. Any error whose text contains "Reference already exists" is
  turned into success. In particular, after a first call that the remote answered and that
  returned no error, a second call with the same name and base that the remote answers
  returns no error.
\<close>

theorem CreateBranch_existing_reference_is_success:
  "(\<forall>sha ident. refs r (''refs/heads/'' @ name) = Some sha \<and> next_reply r = Done ident \<longrightarrow>
       fst (CreateBranch g r name baseSHA) = None
     \<and> refs (snd (CreateBranch g r name baseSHA)) = refs r)
   \<and> (\<forall>err. next_reply r = Fail err \<and> sublist ''Reference already exists'' err \<longrightarrow>
       fst (CreateBranch g r name baseSHA) = None)
   \<and> (\<forall>a b. next_reply r = Done a \<and> fst (CreateBranch g r name baseSHA) = None
          \<and> next_reply (snd (CreateBranch g r name baseSHA)) = Done b \<longrightarrow>
       fst (CreateBranch g (snd (CreateBranch g r name baseSHA)) name baseSHA) = None)"
proof -
  let ?ref = "\<lparr>Ref = Some (''refs/heads/'' @ name), Object = Some \<lparr>GitObject.SHA = Some baseSHA\<rparr>\<rparr>"
  have first: "fst (CreateBranch g r name baseSHA) = None
      \<and> refs (snd (CreateBranch g r name baseSHA)) = refs r"
    if "refs r (''refs/heads/'' @ name) = Some sha \<and> next_reply r = Done ident" for sha ident
    using that by (simp add: CreateBranch_existing called_simps)
  have second: "fst (CreateBranch g r name baseSHA) = None"
    if "next_reply r = Fail err \<and> sublist ''Reference already exists'' err" for err
    using that by (simp add: CreateBranch_def Git_CreateRef_def Let_def)
  have third: "fst (CreateBranch g (snd (CreateBranch g r name baseSHA)) name baseSHA) = None"
    if h: "next_reply r = Done a \<and> fst (CreateBranch g r name baseSHA) = None
          \<and> next_reply (snd (CreateBranch g r name baseSHA)) = Done b" for a b
  proof -
    let ?r1 = "snd (CreateBranch g r name baseSHA)"
    from h have a: "next_reply r = Done a" and n: "fst (CreateBranch g r name baseSHA) = None"
      and b: "next_reply ?r1 = Done b"
      by simp_all
    from CreateBranch_unchanged_or_created [OF a, where g = g and name = name and baseSHA = baseSHA]
    show ?thesis
    proof
      assume "refs ?r1 (''refs/heads/'' @ name) \<noteq> None"
      then obtain sha where "refs ?r1 (''refs/heads/'' @ name) = Some sha" by blast
      with b show ?thesis by (simp add: CreateBranch_existing)
    next
      assume same: "?r1 = called (CreateRef ?ref) r \<and> refs r (''refs/heads/'' @ name) = None
          \<and> commits r baseSHA = None"
      let ?e = "api_error ''POST'' (owner g) (repo g) ''git/refs'' ''422 Object does not exist''"
      from same a have "CreateBranch g r name baseSHA =
          (if sublist ''Reference already exists'' ?e then None
           else Some (''failed to create branch '' @ name @ '': '' @ ?e), called (CreateRef ?ref) r)"
        by (simp add: CreateBranch_def Git_CreateRef_def Let_def GetString_def
            GetObject_GetSHA_def)
      with n have sub: "sublist ''Reference already exists'' ?e"
        by (simp split: if_splits)
      from same b have "Git_CreateRef ?r1 (owner g) (repo g) ?ref = (Inl ?e, called (CreateRef ?ref) ?r1)"
        by (simp add: Git_CreateRef_def Let_def GetString_def GetObject_GetSHA_def called_simps)
      with sub show ?thesis by (simp add: CreateBranch_def Let_def)
    qed
  qed
  from first second third show ?thesis by blast
qed

theorem CreateBranch_existing_reference_is_success_witness:
  "fst (CreateBranch sample_provider (sample_remote [Done '''', Done '''']) ''fix'' ''c0'') = None
   \<and> fst (CreateBranch sample_provider (sample_remote [Done '''', Done '''']) ''new'' ''c0'') = None
   \<and> fst (CreateBranch sample_provider
            (snd (CreateBranch sample_provider (sample_remote [Done '''', Done '''']) ''new'' ''c0''))
            ''new'' ''c0'') = None
   \<and> fst (CreateBranch sample_provider
            (sample_remote [Fail ''POST: 422 Reference already exists []'']) ''new'' ''c0'') = None"
proof -
  let ?r = "sample_remote [Done '''', Done '''']"
  let ?f = "sample_remote [Fail ''POST: 422 Reference already exists []'']"
  have exists: "refs ?r (''refs/heads/'' @ ''fix'') = Some ''c0'' \<and> next_reply ?r = Done ''''"
    by (simp add: sample_remote_def next_reply_def script_of_def)
  have created: "fst (CreateBranch sample_provider ?r ''new'' ''c0'') = None"
    by (simp add: CreateBranch_def Git_CreateRef_def Let_def sample_remote_def next_reply_def
        script_of_def GetString_def GetObject_GetSHA_def)
  have again: "next_reply ?r = Done '''' \<and> fst (CreateBranch sample_provider ?r ''new'' ''c0'') = None
      \<and> next_reply (snd (CreateBranch sample_provider ?r ''new'' ''c0'')) = Done ''''"
    using created
    by (simp add: next_reply_def CreateBranch_calls) (simp add: sample_remote_def script_of_def)
  have sub: "sublist ''Reference already exists'' ''POST: 422 Reference already exists []''"
    by code_simp
  have failing: "next_reply ?f = Fail ''POST: 422 Reference already exists []''
      \<and> sublist ''Reference already exists'' ''POST: 422 Reference already exists []''"
    using sub by (simp add: sample_remote_def next_reply_def script_of_def)
  from exists again failing
    CreateBranch_existing_reference_is_success
      [where r = ?r and name = "''fix''" and g = sample_provider and baseSHA = "''c0''"]
    CreateBranch_existing_reference_is_success
      [where r = ?r and name = "''new''" and g = sample_provider and baseSHA = "''c0''"]
    CreateBranch_existing_reference_is_success
      [where r = ?f and name = "''new''" and g = sample_provider and baseSHA = "''c0''"]
  show ?thesis by blast
qed

subsection \<open>Creating a pull request\<close>

lemma PullRequests_Create_done:
  assumes "next_reply r = Done ident"
  shows "PullRequests_Create r ow rp pr =
     (Inr \<lparr>PullRequest.Number = Some (int (length (pulls r)) + 1),
           URL = Some (''https://api.github.com/repos/'' @ ow @ ''/'' @ rp @ ''/pulls/'' @ ident),
           HTMLURL = Some (''https://github.com/'' @ ow @ ''/'' @ rp @ ''/pull/'' @ ident)\<rparr>,
      (called (CreatePull pr) r)\<lparr>pulls := pulls r @
         [\<lparr>pr_number = int (length (pulls r)) + 1, pr_request = pr, pr_labels = [],
           pr_assignees = []\<rparr>]\<rparr>)"
  using assms by (simp add: PullRequests_Create_def Let_def)

lemma CreatePullRequest_created:
  assumes "PullRequests_Create r (owner g) (repo g)
             \<lparr>NewPullRequest.Title = PRRequest.Title req, NewPullRequest.Body = PRRequest.Body req,
              Head = PRRequest.Head req, Base = PRRequest.Base req,
              Draft = PRRequest.Draft req\<rparr> = (Inr created, r1)"
  shows "fst (CreatePullRequest g r req) =
     Ok \<lparr>PRResponse.Number = GetInt (PullRequest.Number created),
         PRResponse.URL = GetString (PullRequest.URL created),
         PRResponse.HTMLURL = GetString (PullRequest.HTMLURL created)\<rparr>"
  using assms by (simp add: CreatePullRequest_def Let_def)

text \<open>
  C9. Once the call that creates the pull request succeeds, \<^const>\<open>CreatePullRequest\<close>
  returns the response with the number and the two URLs of the created pull request,
  whatever the remote answers to the calls that add labels and assignees. It returns an
  error only when the creating call fails. When both later calls fail, no label and no
  assignee is attached, and the response is returned all the same.
\<close>

theorem CreatePullRequest_side_failures_are_not_fatal:
  "(\<forall>created r1.
       PullRequests_Create r (owner g) (repo g)
         \<lparr>NewPullRequest.Title = PRRequest.Title req, NewPullRequest.Body = PRRequest.Body req,
          Head = PRRequest.Head req, Base = PRRequest.Base req,
          Draft = PRRequest.Draft req\<rparr> = (Inr created, r1) \<longrightarrow>
       fst (CreatePullRequest g r req) =
         Ok \<lparr>PRResponse.Number = GetInt (PullRequest.Number created),
             PRResponse.URL = GetString (PullRequest.URL created),
             PRResponse.HTMLURL = GetString (PullRequest.HTMLURL created)\<rparr>)
   \<and> (\<forall>ident. next_reply r = Done ident \<longrightarrow>
       fst (CreatePullRequest g r req) =
         Ok \<lparr>PRResponse.Number = int (length (pulls r)) + 1,
             PRResponse.URL = ''https://api.github.com/repos/'' @ owner g @ ''/'' @ repo g
                                @ ''/pulls/'' @ ident,
             PRResponse.HTMLURL = ''https://github.com/'' @ owner g @ ''/'' @ repo g
                                @ ''/pull/'' @ ident\<rparr>)
   \<and> (\<forall>ident e1 e2. next_reply r = Done ident
          \<and> replies r (Suc (length (calls r))) = Fail e1
          \<and> replies r (Suc (Suc (length (calls r)))) = Fail e2 \<longrightarrow>
       (\<exists>response. fst (CreatePullRequest g r req) = Ok response)
       \<and> map pr_labels (pulls (snd (CreatePullRequest g r req))) = map pr_labels (pulls r) @ [[]]
       \<and> map pr_assignees (pulls (snd (CreatePullRequest g r req)))
            = map pr_assignees (pulls r) @ [[]])
   \<and> (\<forall>err. next_reply r = Fail err \<longrightarrow>
       fst (CreatePullRequest g r req) = Err (''failed to create pull request: '' @ err))"
proof -
  let ?pr = "\<lparr>NewPullRequest.Title = PRRequest.Title req, NewPullRequest.Body = PRRequest.Body req,
              Head = PRRequest.Head req, Base = PRRequest.Base req,
              Draft = PRRequest.Draft req\<rparr>"
  have created: "fst (CreatePullRequest g r req) =
         Ok \<lparr>PRResponse.Number = GetInt (PullRequest.Number created),
             PRResponse.URL = GetString (PullRequest.URL created),
             PRResponse.HTMLURL = GetString (PullRequest.HTMLURL created)\<rparr>"
    if "PullRequests_Create r (owner g) (repo g) ?pr = (Inr created, r1)" for created r1
    using that by (rule CreatePullRequest_created)
  have succeeded: "fst (CreatePullRequest g r req) =
         Ok \<lparr>PRResponse.Number = int (length (pulls r)) + 1,
             PRResponse.URL = ''https://api.github.com/repos/'' @ owner g @ ''/'' @ repo g
                                @ ''/pulls/'' @ ident,
             PRResponse.HTMLURL = ''https://github.com/'' @ owner g @ ''/'' @ repo g
                                @ ''/pull/'' @ ident\<rparr>"
    if "next_reply r = Done ident" for ident
    using CreatePullRequest_created [OF PullRequests_Create_done [OF that]]
    by (simp add: GetInt_def GetString_def)
  have failed_sides: "(\<exists>response. fst (CreatePullRequest g r req) = Ok response)
       \<and> map pr_labels (pulls (snd (CreatePullRequest g r req))) = map pr_labels (pulls r) @ [[]]
       \<and> map pr_assignees (pulls (snd (CreatePullRequest g r req)))
            = map pr_assignees (pulls r) @ [[]]"
    if h: "next_reply r = Done ident
          \<and> replies r (Suc (length (calls r))) = Fail e1
          \<and> replies r (Suc (Suc (length (calls r)))) = Fail e2" for ident e1 e2
  proof -
    from h have d: "next_reply r = Done ident" by simp
    have "map pr_labels (pulls (snd (CreatePullRequest g r req))) = map pr_labels (pulls r) @ [[]]
       \<and> map pr_assignees (pulls (snd (CreatePullRequest g r req)))
            = map pr_assignees (pulls r) @ [[]]"
      using h
      by (simp add: CreatePullRequest_def Let_def PullRequests_Create_done [OF d]
          Issues_AddLabelsToIssue_def Issues_AddAssignees_def next_reply_def called_def)
    with succeeded [OF d] show ?thesis by simp
  qed
  have failed: "fst (CreatePullRequest g r req) = Err (''failed to create pull request: '' @ err)"
    if "next_reply r = Fail err" for err
    using that by (simp add: CreatePullRequest_def PullRequests_Create_def Let_def)
  from created succeeded failed_sides failed show ?thesis by blast
qed

theorem CreatePullRequest_side_failures_are_not_fatal_witness:
  "fst (CreatePullRequest sample_provider
          (sample_remote [Done ''1'', Fail ''503 Service Unavailable'', Fail ''404 Not Found''])
          sample_request)
     = Ok \<lparr>PRResponse.Number = 1,
           PRResponse.URL = ''https://api.github.com/repos/acme/shop/pulls/1'',
           PRResponse.HTMLURL = ''https://github.com/acme/shop/pull/1''\<rparr>
   \<and> map pr_labels (pulls (snd (CreatePullRequest sample_provider
          (sample_remote [Done ''1'', Fail ''503 Service Unavailable'', Fail ''404 Not Found''])
          sample_request))) = [[]]
   \<and> fst (CreatePullRequest sample_provider (sample_remote []) sample_request)
     = Err ''failed to create pull request: connection refused''"
proof -
  let ?r = "sample_remote [Done ''1'', Fail ''503 Service Unavailable'', Fail ''404 Not Found'']"
  have h: "next_reply ?r = Done ''1''
      \<and> replies ?r (Suc (length (calls ?r))) = Fail ''503 Service Unavailable''
      \<and> replies ?r (Suc (Suc (length (calls ?r)))) = Fail ''404 Not Found''"
    by (simp add: sample_remote_def next_reply_def script_of_def)
  have f: "next_reply (sample_remote []) = Fail ''connection refused''"
    by (simp add: sample_remote_def next_reply_def script_of_def)
  have p: "pulls ?r = []" "owner sample_provider = ''acme''" "repo sample_provider = ''shop''"
    by (simp_all add: sample_remote_def sample_provider_def)
  from h f
    CreatePullRequest_side_failures_are_not_fatal
      [where r = ?r and g = sample_provider and req = sample_request]
    CreatePullRequest_side_failures_are_not_fatal
      [where r = "sample_remote []" and g = sample_provider and req = sample_request]
  show ?thesis by (simp add: p)
qed

end
